theory Spec2Isabelle
  imports Complex_Main "HOL-Library.Sublist"
begin

section \<open>Python strings\<close>

text \<open>
  A Python \<open>str\<close> is modelled as a \<open>string\<close> (a list of bytes, UTF-8). The program
  only inspects ASCII text (\<open>"true"\<close>, \<open>"cpu"\<close>, \<open>tag: "latest"\<close>), and every byte of a
  non-ASCII code point is at least 128, so it is never mistaken for one of these letters.
\<close>

definition lower_char :: "char \<Rightarrow> char" where
  \<comment> \<open>\<open>str.lower()\<close> on one ASCII character: \<open>A..Z\<close> become \<open>a..z\<close>.\<close>
  "lower_char c =
     (case map_of (zip ''ABCDEFGHIJKLMNOPQRSTUVWXYZ'' ''abcdefghijklmnopqrstuvwxyz'') c of
        Some d \<Rightarrow> d
      | None \<Rightarrow> c)"

definition lower :: "string \<Rightarrow> string" where
  "lower s = map lower_char s"

definition py_in :: "string \<Rightarrow> string \<Rightarrow> bool" where
  \<comment> \<open>\<open>sub in s\<close> on strings: \<open>sub\<close> occurs in \<open>s\<close> as a contiguous block.\<close>
  "py_in sub s = sublist sub s"

fun join :: "'a list \<Rightarrow> 'a list list \<Rightarrow> 'a list" where
  \<comment> \<open>\<open>sep.join(parts)\<close>\<close>
  "join sep [] = []"
| "join sep [p] = p"
| "join sep (p # q # ps) = p @ sep @ join sep (q # ps)"

definition newline :: string where
  "newline = [CHR 0x0A]"

definition dquote :: string where
  "dquote = [CHR 0x22]"

fun splitlines_acc :: "string \<Rightarrow> string \<Rightarrow> string list" where
  "splitlines_acc cur [] = [rev cur]"
| "splitlines_acc cur (c # cs) =
     (if c = CHR 0x0A then rev cur # splitlines_acc [] cs else splitlines_acc (c # cur) cs)"

definition lines_of :: "string \<Rightarrow> string list" where
  \<comment> \<open>\<open>s.split("\\n")\<close>: the lines of a text.\<close>
  "lines_of s = splitlines_acc [] s"

section \<open>The remediation planner (agent.py, lines 72-87)\<close>

definition simple_llm_reasoning :: "string \<Rightarrow> string" where
  "simple_llm_reasoning issue_text =
     (let plan =
        (if py_in ''high cpu'' (lower issue_text) \<or> py_in ''cpu'' (lower issue_text)
         then [''Scale up replica count (increase replicas by 1 or 2)'',
               ''Restart pods of the deployment'',
               ''Check for hot loops / heavy GC in app logs'',
               ''If persists, create PR to bump resource limits or add HPA'']
         else [''Investigate further, check logs and recent deployments''])
      in join newline plan)"


section \<open>The values-file edit (agent.py, lines 137-140)\<close>

function py_replace :: "string \<Rightarrow> string \<Rightarrow> string \<Rightarrow> string" where
  \<comment> \<open>\<open>s.replace(old, new)\<close>: scan from the left, replace each match, go on after it.\<close>
  "py_replace old new s =
     (if old = [] then new @ concat (map (\<lambda>c. c # new) s)
      else if s = [] then []
      else if prefix old s then new @ py_replace old new (drop (length old) s)
      else hd s # py_replace old new (tl s))"
  by pat_completeness auto
termination
  by (relation "measure (\<lambda>(old, new, s). length s)") (auto simp: neq_Nil_conv)

declare py_replace.simps [simp del]

definition tag_line :: "string \<Rightarrow> string" where
  \<comment> \<open>\<open>f'tag: "{t}"'\<close>\<close>
  "tag_line t = ''tag: '' @ dquote @ t @ dquote"

definition helm_new_content :: "string \<Rightarrow> string \<Rightarrow> string" where
  \<comment> \<open>Lines 137-140 of \<open>create_github_pr_update_helm\<close>: \<open>new_content\<close> from \<open>original\<close>.\<close>
  "helm_new_content original new_tag =
     (let new_content = py_replace (tag_line ''latest'') (tag_line new_tag) original
      in if new_content = original
         then original @ newline @ ''# agent update: tag '' @ new_tag @ newline
         else new_content)"

section \<open>Exceptions, effects and the world outside agent.py\<close>

datatype py_exn = PyExn (exn_class: string) (exn_str: string)

subsection \<open>Python floats\<close>

text \<open>
  A Python float is an IEEE 754 double: a finite value, an infinity or a NaN. The order is
  the one of Python's comparisons: a NaN is neither less than nor equal to anything.
  (The sign of zero is not kept: \<open>-0.0\<close> and \<open>0.0\<close> compare equal.)
\<close>

datatype pyfloat = Fin real | PInf | NInf | NaN

instantiation pyfloat :: "{zero, ord}"
begin

definition zero_pyfloat :: pyfloat where
  "zero_pyfloat = Fin 0"

definition less_pyfloat :: "pyfloat \<Rightarrow> pyfloat \<Rightarrow> bool" where
  "less_pyfloat a b =
     (case (a, b) of
        (Fin x, Fin y) \<Rightarrow> x < y
      | (Fin _, PInf) \<Rightarrow> True
      | (NInf, Fin _) \<Rightarrow> True
      | (NInf, PInf) \<Rightarrow> True
      | _ \<Rightarrow> False)"

definition less_eq_pyfloat :: "pyfloat \<Rightarrow> pyfloat \<Rightarrow> bool" where
  "less_eq_pyfloat a b = (a < b \<or> (a = b \<and> a \<noteq> NaN))"

instance ..

end

definition pow2 :: "int \<Rightarrow> real" where
  "pow2 e = (if 0 \<le> e then 2 ^ nat e else 1 / 2 ^ nat (- e))"

definition rne :: "real \<Rightarrow> int" where
  \<comment> \<open>round to the nearest integer, a tie to the even one\<close>
  "rne y = (let f = \<lfloor>y\<rfloor>; d = y - of_int f
            in if d < 1 / 2 then f else if 1 / 2 < d then f + 1
               else if even f then f else f + 1)"

definition round_double :: "real \<Rightarrow> pyfloat" where
  \<comment> \<open>the double nearest to \<open>x\<close> (53 significant bits, exponents down to the subnormals,
      overflow to infinity): what every IEEE operation returns for its exact result \<open>x\<close>\<close>
  "round_double x =
     (if x = 0 then Fin 0
      else let e = max (\<lfloor>log 2 \<bar>x\<bar>\<rfloor> - 52) (- 1074);
               y = of_int (rne (x / pow2 e)) * pow2 e
           in if 2 ^ 1024 \<le> \<bar>y\<bar> then (if 0 < x then PInf else NInf) else Fin y)"

definition float_add :: "pyfloat \<Rightarrow> pyfloat \<Rightarrow> pyfloat" where
  \<comment> \<open>\<open>a + b\<close> on doubles\<close>
  "float_add a b =
     (case (a, b) of
        (Fin x, Fin y) \<Rightarrow> round_double (x + y)
      | (NaN, _) \<Rightarrow> NaN
      | (_, NaN) \<Rightarrow> NaN
      | (PInf, NInf) \<Rightarrow> NaN
      | (NInf, PInf) \<Rightarrow> NaN
      | (PInf, _) \<Rightarrow> PInf
      | (_, PInf) \<Rightarrow> PInf
      | (NInf, _) \<Rightarrow> NInf
      | (_, NInf) \<Rightarrow> NInf)"

definition float_div_nat :: "pyfloat \<Rightarrow> nat \<Rightarrow> pyfloat" where
  \<comment> \<open>\<open>a / n\<close> for a double \<open>a\<close> and a positive \<open>int\<close> \<open>n\<close> (a list length)\<close>
  "float_div_nat a n = (case a of Fin x \<Rightarrow> round_double (x / real n) | _ \<Rightarrow> a)"

subsection \<open>JSON values, responses, events\<close>

datatype json =
    JNull
  | JBool bool
  | JInt int
  | JFloat pyfloat
  | JStr string
  | JArr "json list"
  | JObj "(string \<times> json) list"

record response =
  status_code :: int
  resp_text :: string
  resp_reason :: string
  resp_json :: "py_exn + json"

record contents =
  path :: string
  sha :: string
  decoded_content :: "py_exn + string"

text \<open>
  What the program does to the outside, in order. \<open>Enter f\<close> marks the entry into the
  notification sink and into the two remediation actions, so that "the action is invoked"
  can be read off the trace even where the action returns before its first external call.
\<close>

datatype event =
    Print string
  | Enter string
  | RequestsGet string string
  | RequestsPost string string
  | LoadKubeConfig
  | LoadInclusterConfig
  | PatchNamespacedDeployment string string string
  | GetRepo string
  | GetBranch string
  | CreateGitRef string string
  | GetContents string string
  | UpdateFile string string string string string
  | CreatePull string string string string
  | Sleep int

text \<open>
  The builtins on numbers and text are parameters: \<open>float(s)\<close> of a string (\<open>None\<close> for a
  \<open>ValueError\<close>) and of an \<open>int\<close> (\<open>None\<close> for an \<open>OverflowError\<close>), \<open>sum\<close> of a list of
  floats (whose rounding differs between Python versions), the division of a float by a
  list length, \<open>str\<close> and \<open>json.dumps\<close>.
\<close>

record pylib =
  float_of_str :: "string \<Rightarrow> pyfloat option"
  float_of_int :: "int \<Rightarrow> pyfloat option"
  float_sum :: "pyfloat list \<Rightarrow> pyfloat"
  float_div_len :: "pyfloat \<Rightarrow> nat \<Rightarrow> pyfloat"
  str_of_float :: "pyfloat \<Rightarrow> string"
  str_of_int :: "int \<Rightarrow> string"
  json_dumps :: "json \<Rightarrow> string"

text \<open>
  What the outside answers during one iteration of the loop: \<open>Inl e\<close> (or \<open>Some e\<close> for a
  call without a result) when the library call raises \<open>e\<close>.
\<close>

record world =
  utcnow_iso :: "nat \<Rightarrow> string"
  utcnow_stamp :: string
  time_time :: int
  requests_get :: "py_exn + response"
  requests_post :: "py_exn + response"
  load_kube_config :: "py_exn option"
  load_incluster_config :: "py_exn option"
  patch_namespaced_deployment :: "py_exn option"
  get_repo :: "py_exn option"
  get_branch :: "py_exn + string"
  create_git_ref :: "py_exn option"
  get_contents :: "py_exn + contents"
  update_file :: "py_exn option"
  create_pull :: "py_exn + string"

type_synonym 'a io = "event list \<times> (py_exn + 'a)"

definition ret :: "'a \<Rightarrow> 'a io" where
  "ret x = ([], Inr x)"

definition raise :: "py_exn \<Rightarrow> 'a io" where
  "raise e = ([], Inl e)"

definition emit :: "event \<Rightarrow> unit io" where
  "emit ev = ([ev], Inr ())"

definition call :: "event \<Rightarrow> py_exn + 'a \<Rightarrow> 'a io" where
  \<comment> \<open>an external call: it is recorded, then returns or raises what the world answers\<close>
  "call ev answer = ([ev], answer)"

definition call_unit :: "event \<Rightarrow> py_exn option \<Rightarrow> unit io" where
  "call_unit ev answer = ([ev], case answer of None \<Rightarrow> Inr () | Some e \<Rightarrow> Inl e)"

definition bind :: "'a io \<Rightarrow> ('a \<Rightarrow> 'b io) \<Rightarrow> 'b io" where
  "bind m k =
     (case m of
        (t, Inl e) \<Rightarrow> (t, Inl e)
      | (t, Inr x) \<Rightarrow> (case k x of (t', r) \<Rightarrow> (t @ t', r)))"

definition catch :: "'a io \<Rightarrow> (py_exn \<Rightarrow> 'a io) \<Rightarrow> 'a io" where
  \<comment> \<open>\<open>try: m  except Exception as e: h e\<close>\<close>
  "catch m h =
     (case m of
        (t, Inl e) \<Rightarrow> (case h e of (t', r) \<Rightarrow> (t @ t', r))
      | (t, Inr x) \<Rightarrow> (t, Inr x))"

definition try_step :: "'a io \<Rightarrow> (py_exn \<Rightarrow> 'r) \<Rightarrow> ('a \<Rightarrow> 'r io) \<Rightarrow> 'r io" where
  \<comment> \<open>\<open>try: x = m  except Exception as e: return on_exn e\<close>, then the rest \<open>k x\<close> of the function\<close>
  "try_step m on_exn k =
     (case m of
        (t, Inl e) \<Rightarrow> (t, Inr (on_exn e))
      | (t, Inr x) \<Rightarrow> (case k x of (t', r) \<Rightarrow> (t @ t', r)))"

definition falsy :: "string option \<Rightarrow> bool" where
  \<comment> \<open>\<open>not v\<close> for a value of \<open>os.getenv\<close>: \<open>None\<close> or the empty string\<close>
  "falsy v = (case v of None \<Rightarrow> True | Some s \<Rightarrow> s = [])"

definition str_of_bool :: "bool \<Rightarrow> string" where
  "str_of_bool b = (if b then ''True'' else ''False'')"

section \<open>Process configuration (agent.py, lines 20-32)\<close>

type_synonym environ = "string \<rightharpoonup> string"

definition getenv :: "environ \<Rightarrow> string \<Rightarrow> string option" where
  \<comment> \<open>\<open>os.getenv(k)\<close>\<close>
  "getenv env k = env k"

definition getenv_default :: "environ \<Rightarrow> string \<Rightarrow> string \<Rightarrow> string" where
  \<comment> \<open>\<open>os.getenv(k, d)\<close>\<close>
  "getenv_default env k d = (case env k of None \<Rightarrow> d | Some v \<Rightarrow> v)"

definition DRY_RUN_of :: "environ \<Rightarrow> bool" where
  \<comment> \<open>\<open>DRY_RUN = os.getenv("DRY_RUN", "true").lower() == "true"\<close>\<close>
  "DRY_RUN_of env = (lower (getenv_default env ''DRY_RUN'' ''true'') = ''true'')"

definition AUTO_APPLY_of :: "environ \<Rightarrow> bool" where
  \<comment> \<open>\<open>AUTO_APPLY = os.getenv("AUTO_APPLY", "false").lower() == "true"\<close>\<close>
  "AUTO_APPLY_of env = (lower (getenv_default env ''AUTO_APPLY'' ''false'') = ''true'')"

record config =
  PROM_URL :: "string option"
  NAMESPACE :: string
  DEPLOYMENT_NAME :: string
  SLACK_WEBHOOK :: "string option"
  GITHUB_TOKEN :: "string option"
  GITHUB_REPO :: "string option"
  DRY_RUN :: bool
  AUTO_APPLY :: bool
  HELM_VALUES_PATH :: string
  IMAGE_REPO :: string
  CPU_THRESHOLD :: pyfloat

definition module_config :: "pylib \<Rightarrow> environ \<Rightarrow> py_exn + config" where
  \<comment> \<open>The module-level assignments, run once when the process starts. \<open>env\<close> is the
      environment after \<open>load_dotenv\<close>. Only \<open>float(...)\<close> can raise here.\<close>
  "module_config L env =
     (case float_of_str L (getenv_default env ''CPU_THRESHOLD'' ''0.5'') of
        None \<Rightarrow> Inl (PyExn ''ValueError'' ''could not convert string to float'')
      | Some thr \<Rightarrow>
          Inr \<lparr> PROM_URL = getenv env ''PROMETHEUS_URL'',
                NAMESPACE = getenv_default env ''NAMESPACE'' ''default'',
                DEPLOYMENT_NAME = getenv_default env ''DEPLOYMENT_NAME'' ''myapp'',
                SLACK_WEBHOOK = getenv env ''SLACK_WEBHOOK_URL'',
                GITHUB_TOKEN = getenv env ''GITHUB_TOKEN'',
                GITHUB_REPO = getenv env ''GITHUB_REPO'',
                DRY_RUN = DRY_RUN_of env,
                AUTO_APPLY = AUTO_APPLY_of env,
                HELM_VALUES_PATH = getenv_default env ''HELM_VALUES_PATH'' ''helm-chart/myapp/values.yaml'',
                IMAGE_REPO = getenv_default env ''IMAGE_REPOSITORY'' ''myapp'',
                CPU_THRESHOLD = thr \<rparr>)"

section \<open>The notification sink (agent.py, lines 34-44)\<close>

definition post_slack :: "pylib \<Rightarrow> config \<Rightarrow> world \<Rightarrow> string \<Rightarrow> unit io" where
  "post_slack L cfg w text =
     bind (emit (Enter ''post_slack'')) (\<lambda>_.
     case SLACK_WEBHOOK cfg of
       None \<Rightarrow> emit (Print (''Slack webhook not configured. Message: '' @ text))
     | Some url \<Rightarrow>
         if url = [] then emit (Print (''Slack webhook not configured. Message: '' @ text))
         else
           catch
             (bind (call (RequestsPost url text) (requests_post w)) (\<lambda>resp.
                if status_code resp \<ge> 300
                then emit (Print (''Slack post failed: '' @ str_of_int L (status_code resp)
                                   @ '' '' @ resp_text resp))
                else ret ()))
             (\<lambda>e. emit (Print (''Slack post exception: '' @ exn_str e))))"

section \<open>The metric sampler (agent.py, lines 46-70)\<close>

definition rstrip_slash :: "string \<Rightarrow> string" where
  \<comment> \<open>\<open>s.rstrip("/")\<close>\<close>
  "rstrip_slash s = rev (dropWhile (\<lambda>c. c = CHR ''/'') (rev s))"

definition raise_for_status :: "response \<Rightarrow> unit io" where
  \<comment> \<open>\<open>requests\<close>: an \<open>HTTPError\<close> for a 4xx or 5xx status\<close>
  "raise_for_status r =
     (if 400 \<le> status_code r \<and> status_code r < 600
      then raise (PyExn ''HTTPError'' (resp_reason r))
      else ret ())"

definition query_prometheus :: "config \<Rightarrow> world \<Rightarrow> string \<Rightarrow> json io" where
  "query_prometheus cfg w query =
     (case PROM_URL cfg of
        None \<Rightarrow> raise (PyExn ''RuntimeError'' ''PROMETHEUS_URL not configured'')
      | Some prom_url \<Rightarrow>
          if prom_url = [] then raise (PyExn ''RuntimeError'' ''PROMETHEUS_URL not configured'')
          else
            bind (call (RequestsGet (rstrip_slash prom_url @ ''/api/v1/query'') query)
                       (requests_get w)) (\<lambda>r.
            bind (raise_for_status r) (\<lambda>_.
            ([], resp_json r))))"

definition dict_get :: "json \<Rightarrow> string \<Rightarrow> json \<Rightarrow> json io" where
  \<comment> \<open>\<open>d.get(k, default)\<close>; only a dict has \<open>get\<close>\<close>
  "dict_get d k dflt =
     (case d of
        JObj kvs \<Rightarrow> ret (case map_of kvs k of Some v \<Rightarrow> v | None \<Rightarrow> dflt)
      | _ \<Rightarrow> raise (PyExn ''AttributeError'' ''object has no attribute get''))"

definition py_iter :: "json \<Rightarrow> json list io" where
  \<comment> \<open>the items a \<open>for\<close> loop visits: elements of a list, keys of a dict, characters of a str\<close>
  "py_iter v =
     (case v of
        JArr xs \<Rightarrow> ret xs
      | JObj kvs \<Rightarrow> ret (map (\<lambda>kv. JStr (fst kv)) kvs)
      | JStr s \<Rightarrow> ret (map (\<lambda>c. JStr [c]) s)
      | _ \<Rightarrow> raise (PyExn ''TypeError'' ''object is not iterable''))"

definition getitem_str :: "json \<Rightarrow> string \<Rightarrow> json io" where
  \<comment> \<open>\<open>v[k]\<close> for a string key\<close>
  "getitem_str v k =
     (case v of
        JObj kvs \<Rightarrow> (case map_of kvs k of Some x \<Rightarrow> ret x | None \<Rightarrow> raise (PyExn ''KeyError'' k))
      | _ \<Rightarrow> raise (PyExn ''TypeError'' ''indices must be integers''))"

definition getitem_nat :: "json \<Rightarrow> nat \<Rightarrow> json io" where
  \<comment> \<open>\<open>v[i]\<close> for a non-negative integer index\<close>
  "getitem_nat v i =
     (case v of
        JArr xs \<Rightarrow> if i < length xs then ret (xs ! i)
                   else raise (PyExn ''IndexError'' ''list index out of range'')
      | JStr s \<Rightarrow> if i < length s then ret (JStr [s ! i])
                  else raise (PyExn ''IndexError'' ''string index out of range'')
      | JObj kvs \<Rightarrow> raise (PyExn ''KeyError'' ''1'')
      | _ \<Rightarrow> raise (PyExn ''TypeError'' ''object is not subscriptable''))"

definition py_float :: "pylib \<Rightarrow> json \<Rightarrow> pyfloat io" where
  \<comment> \<open>\<open>float(v)\<close>\<close>
  "py_float L v =
     (case v of
        JStr s \<Rightarrow> (case float_of_str L s of
                     Some x \<Rightarrow> ret x
                   | None \<Rightarrow> raise (PyExn ''ValueError'' ''could not convert string to float''))
      | JFloat x \<Rightarrow> ret x
      | JInt i \<Rightarrow> (case float_of_int L i of
                     Some x \<Rightarrow> ret x
                   | None \<Rightarrow> raise (PyExn ''OverflowError'' ''int too large to convert to float''))
      | JBool b \<Rightarrow> ret (Fin (if b then 1 else 0))
      | _ \<Rightarrow> raise (PyExn ''TypeError'' ''float() argument must be a string or a number''))"

fun collect_values :: "pylib \<Rightarrow> json list \<Rightarrow> pyfloat list io" where
  \<comment> \<open>\<open>for r in results: v = float(r["value"][1]); values.append(v)\<close>\<close>
  "collect_values L [] = ret []"
| "collect_values L (r # rs) =
     bind (getitem_str r ''value'') (\<lambda>pair.
     bind (getitem_nat pair 1) (\<lambda>sv.
     bind (py_float L sv) (\<lambda>v.
     bind (collect_values L rs) (\<lambda>vs.
     ret (v # vs)))))"

definition prom_query_text :: "string \<Rightarrow> string \<Rightarrow> string" where
  "prom_query_text deployment_name namespace =
     ''sum by (pod) (rate(container_cpu_usage_seconds_total{namespace='' @ dquote @ namespace
       @ dquote @ '',pod=~'' @ dquote @ deployment_name @ ''.*'' @ dquote @ ''}[1m]))''"

definition sampler_try_block ::
  "pylib \<Rightarrow> config \<Rightarrow> world \<Rightarrow> string \<Rightarrow> (pyfloat \<times> json) io" where
  \<comment> \<open>lines 59-67: the body of the \<open>try\<close> in \<open>get_average_cpu_for_deployment\<close>\<close>
  "sampler_try_block L cfg w q =
     bind (query_prometheus cfg w q) (\<lambda>data.
     bind (dict_get data ''data'' (JObj [])) (\<lambda>d.
     bind (dict_get d ''result'' (JArr [])) (\<lambda>results.
     bind (py_iter results) (\<lambda>rs.
     bind (collect_values L rs) (\<lambda>values.
     ret (if values \<noteq> [] then float_div_len L (float_sum L values) (length values) else 0,
          results))))))"

definition get_average_cpu_for_deployment ::
  "pylib \<Rightarrow> config \<Rightarrow> world \<Rightarrow> string \<Rightarrow> string \<Rightarrow> (pyfloat \<times> json) io" where
  "get_average_cpu_for_deployment L cfg w deployment_name namespace =
     (let q = prom_query_text deployment_name namespace in
      catch (sampler_try_block L cfg w q)
        (\<lambda>e.
         bind (emit (Print (''Prom query error: '' @ exn_str e))) (\<lambda>_.
         ret (0, JArr []))))"

section \<open>The remediation executor (agent.py, lines 89-151)\<close>

definition restart_deployment_k8s ::
  "config \<Rightarrow> world \<Rightarrow> string \<Rightarrow> string \<Rightarrow> (bool \<times> string) io" where
  "restart_deployment_k8s cfg w deployment_name namespace =
     bind (emit (Enter ''restart_deployment_k8s'')) (\<lambda>_.
     bind (catch
             (bind (call_unit LoadKubeConfig (load_kube_config w)) (\<lambda>_. ret None))
             (\<lambda>_. catch
                    (bind (call_unit LoadInclusterConfig (load_incluster_config w)) (\<lambda>_. ret None))
                    (\<lambda>e. bind (emit (Print (''Failed to load kube config: '' @ exn_str e))) (\<lambda>_.
                         ret (Some (False, exn_str e))))))
          (\<lambda>returned.
     case returned of
       Some result \<Rightarrow> ret result
     | None \<Rightarrow>
         (let now = utcnow_iso w 2 in
          try_step
            (call_unit (PatchNamespacedDeployment deployment_name namespace now)
                       (patch_namespaced_deployment w))
            (\<lambda>e. (False, exn_str e))
            (\<lambda>_. ret (True, ''patched'')))))"

definition branch_name_of :: "pylib \<Rightarrow> world \<Rightarrow> string \<Rightarrow> string" where
  \<comment> \<open>line 125: \<open>f"agent/update-image-{new_tag.replace('.', '-')}-{int(time.time())}"\<close>\<close>
  "branch_name_of L w new_tag =
     ''agent/update-image-'' @ py_replace ''.'' ''-'' new_tag @ ''-'' @ str_of_int L (time_time w)"

definition create_github_pr_update_helm ::
  "pylib \<Rightarrow> config \<Rightarrow> world \<Rightarrow> string \<Rightarrow> (bool \<times> string) io" where
  "create_github_pr_update_helm L cfg w new_tag =
     bind (emit (Enter ''create_github_pr_update_helm'')) (\<lambda>_.
     if falsy (GITHUB_TOKEN cfg) \<or> falsy (GITHUB_REPO cfg) then ret (False, ''GitHub not configured'')
     else
       bind (call_unit (GetRepo (case GITHUB_REPO cfg of Some r \<Rightarrow> r | None \<Rightarrow> [])) (get_repo w)) (\<lambda>_.
       bind (call (GetBranch ''main'') (get_branch w)) (\<lambda>base_sha.
       let branch_name = branch_name_of L w new_tag in
       try_step (call_unit (CreateGitRef (''refs/heads/'' @ branch_name) base_sha) (create_git_ref w))
         (\<lambda>e. (False, ''Failed create branch: '' @ exn_str e)) (\<lambda>_.
       try_step (call (GetContents (HELM_VALUES_PATH cfg) branch_name) (get_contents w))
         (\<lambda>e. (False, ''Failed read helm values: '' @ exn_str e)) (\<lambda>cont.
       bind ([], decoded_content cont) (\<lambda>original.
       let new_content = helm_new_content original new_tag in
       try_step (call_unit (UpdateFile (path cont) (''agent: bump image tag to '' @ new_tag)
                              new_content (sha cont) branch_name) (update_file w))
         (\<lambda>e. (False, ''Failed update file: '' @ exn_str e)) (\<lambda>_.
       try_step (call (CreatePull (''agent: bump image tag to '' @ new_tag)
                         ''Automated update by Agentic AIOps'' branch_name ''main'') (create_pull w))
         (\<lambda>e. (False, ''Failed create PR: '' @ exn_str e)) (\<lambda>html_url.
       ret (True, ''PR created: '' @ html_url)))))))))"

section \<open>The control loop (agent.py, lines 153-198)\<close>

definition log_action :: "pylib \<Rightarrow> json \<Rightarrow> unit io" where
  "log_action L action_obj = emit (Print (''[AGENT ACTION] '' @ json_dumps L action_obj))"

definition py_sleep :: "int \<Rightarrow> unit io" where
  \<comment> \<open>\<open>time.sleep(d)\<close>; a negative length is a \<open>ValueError\<close>\<close>
  "py_sleep d =
     (if d < 0 then raise (PyExn ''ValueError'' ''sleep length must be non-negative'')
      else emit (Sleep d))"

definition issue_text_of :: "pylib \<Rightarrow> config \<Rightarrow> pyfloat \<Rightarrow> string" where
  \<comment> \<open>line 162\<close>
  "issue_text_of L cfg avg_cpu =
     ''High CPU detected for '' @ DEPLOYMENT_NAME cfg @ '' in '' @ NAMESPACE cfg
       @ '': avg_cpu='' @ str_of_float L avg_cpu"

definition apply_changes :: "pylib \<Rightarrow> config \<Rightarrow> world \<Rightarrow> unit io" where
  \<comment> \<open>lines 175-188: the choice of the remediation action\<close>
  "apply_changes L cfg w =
     (if DRY_RUN cfg then emit (Print ''DRY_RUN enabled -> not applying changes.'')
      else if AUTO_APPLY cfg then
        bind (restart_deployment_k8s cfg w (DEPLOYMENT_NAME cfg) (NAMESPACE cfg)) (\<lambda>(ok, msg).
        bind (emit (Print (''k8s restart result: '' @ str_of_bool ok @ '' '' @ msg))) (\<lambda>_.
        log_action L (JObj [(''apply_result'',
                             JObj [(''k8s_restart_ok'', JBool ok), (''msg'', JStr msg)])])))
      else
        (let new_tag = ''agent-'' @ utcnow_stamp w in
         bind (create_github_pr_update_helm L cfg w new_tag) (\<lambda>(ok, msg).
         bind (emit (Print (''create pr result: '' @ str_of_bool ok @ '' '' @ msg))) (\<lambda>_.
         log_action L (JObj [(''apply_result'',
                              JObj [(''pr_ok'', JBool ok), (''msg'', JStr msg)])])))))"

definition loop_body :: "pylib \<Rightarrow> config \<Rightarrow> int \<Rightarrow> world \<Rightarrow> unit io" where
  \<comment> \<open>lines 159-192: one iteration of \<open>while True\<close>\<close>
  "loop_body L cfg poll_interval w =
     bind (get_average_cpu_for_deployment L cfg w (DEPLOYMENT_NAME cfg) (NAMESPACE cfg))
       (\<lambda>(avg_cpu, results).
     bind (emit (Print (''['' @ utcnow_iso w 0 @ ''] avg_cpu='' @ str_of_float L avg_cpu
                        @ '' (threshold='' @ str_of_float L (CPU_THRESHOLD cfg) @ '')''))) (\<lambda>_.
     if avg_cpu > CPU_THRESHOLD cfg then
       (let issue_text = issue_text_of L cfg avg_cpu;
            plan = simple_llm_reasoning issue_text;
            action = JObj [(''timestamp'', JStr (utcnow_iso w 1)),
                           (''deployment'', JStr (DEPLOYMENT_NAME cfg)),
                           (''namespace'', JStr (NAMESPACE cfg)),
                           (''avg_cpu'', JFloat avg_cpu),
                           (''plan'', JStr plan),
                           (''prom_results'', results)] in
        bind (log_action L action) (\<lambda>_.
        bind (post_slack L cfg w ('':rotating_light: *Agentic AIOps:* '' @ issue_text
                                   @ newline @ ''Plan:'' @ newline @ plan)) (\<lambda>_.
        bind (apply_changes L cfg w) (\<lambda>_.
        py_sleep (poll_interval * 2)))))
     else py_sleep poll_interval))"

text \<open>
  The loop never returns. It is run on the list of the worlds of its first iterations:
  \<open>Inr ()\<close> says that all of them were completed and the loop goes on, \<open>Inl e\<close> that
  the exception \<open>e\<close> left the loop (and ended the process) in one of them.
\<close>

fun iterations :: "pylib \<Rightarrow> config \<Rightarrow> int \<Rightarrow> world list \<Rightarrow> unit io" where
  "iterations L cfg poll_interval [] = ret ()"
| "iterations L cfg poll_interval (w # ws) =
     bind (loop_body L cfg poll_interval w) (\<lambda>_. iterations L cfg poll_interval ws)"

definition main_loop :: "pylib \<Rightarrow> config \<Rightarrow> int \<Rightarrow> world list \<Rightarrow> unit io" where
  "main_loop L cfg poll_interval ws =
     bind (emit (Print (''Starting Agentic AIOps agent (DRY_RUN='' @ str_of_bool (DRY_RUN cfg)
                        @ '', AUTO_APPLY='' @ str_of_bool (AUTO_APPLY cfg) @ '')''))) (\<lambda>_.
     iterations L cfg poll_interval ws)"

definition agent :: "pylib \<Rightarrow> environ \<Rightarrow> world list \<Rightarrow> unit io" where
  \<comment> \<open>the process: the module-level assignments, then \<open>main_loop()\<close> with its default
      \<open>poll_interval=30\<close>\<close>
  "agent L env ws =
     (case module_config L env of
        Inl e \<Rightarrow> raise e
      | Inr cfg \<Rightarrow> main_loop L cfg 30 ws)"

section \<open>Notions of the specification\<close>

definition occurs_ignoring_case :: "string \<Rightarrow> string \<Rightarrow> bool" where
  \<comment> \<open>\<open>kw\<close> (in lower case) stands at some position of \<open>s\<close>, in any mix of cases\<close>
  "occurs_ignoring_case kw s =
     list_ex (\<lambda>i. lower (take (length kw) (drop i s)) = kw) [0..<Suc (length s)]"

definition cpu_plan :: "string list" where
  "cpu_plan = [''Scale up replica count (increase replicas by 1 or 2)'',
               ''Restart pods of the deployment'',
               ''Check for hot loops / heavy GC in app logs'',
               ''If persists, create PR to bump resource limits or add HPA'']"

definition generic_plan :: string where
  "generic_plan = ''Investigate further, check logs and recent deployments''"

definition agent_comment :: "string \<Rightarrow> string" where
  \<comment> \<open>the comment line of the fallback, between two line breaks\<close>
  "agent_comment new_tag = newline @ ''# agent update: tag '' @ new_tag @ newline"

definition series :: "json \<Rightarrow> json \<Rightarrow> string \<Rightarrow> json" where
  \<comment> \<open>one entry of \<open>data.result\<close>: \<open>{metric, value: [timestamp, stringValue]}\<close>\<close>
  "series metric ts sv = JObj [(''metric'', metric), (''value'', JArr [ts, JStr sv])]"

definition prom_data :: "json list \<Rightarrow> json" where
  \<comment> \<open>a query answer whose \<open>data.result\<close> is the list \<open>rs\<close>\<close>
  "prom_data rs = JObj [(''status'', JStr ''success''),
                        (''data'', JObj [(''resultType'', JStr ''vector''), (''result'', JArr rs)])]"

definition matching_series :: "json \<Rightarrow> json option" where
  \<comment> \<open>line 60, \<open>data.get("data", {}).get("result", [])\<close>, where both lookups succeed\<close>
  "matching_series data =
     (case bind (dict_get data ''data'' (JObj [])) (\<lambda>d. dict_get d ''result'' (JArr [])) of
        (_, Inr results) \<Rightarrow> Some results
      | (_, Inl _) \<Rightarrow> None)"

definition is_network_request :: "event \<Rightarrow> bool" where
  "is_network_request ev =
     (case ev of RequestsGet _ _ \<Rightarrow> True | RequestsPost _ _ \<Rightarrow> True | _ \<Rightarrow> False)"

definition sampled_average :: "pylib \<Rightarrow> config \<Rightarrow> world \<Rightarrow> pyfloat" where
  \<comment> \<open>\<open>avg_cpu\<close> of line 159: the first component of what the sampler returns\<close>
  "sampled_average L cfg w =
     (case snd (get_average_cpu_for_deployment L cfg w (DEPLOYMENT_NAME cfg) (NAMESPACE cfg)) of
        Inr (avg_cpu, _) \<Rightarrow> avg_cpu
      | Inl _ \<Rightarrow> 0)"

definition invocations :: "string \<Rightarrow> event list \<Rightarrow> nat" where
  \<comment> \<open>how often the function \<open>f\<close> was entered\<close>
  "invocations f t = count_list t (Enter f)"

definition sleeps :: "event list \<Rightarrow> int list" where
  \<comment> \<open>the lengths of the sleeps, in order\<close>
  "sleeps t = concat (map (\<lambda>ev. case ev of Sleep d \<Rightarrow> [d] | _ \<Rightarrow> []) t)"

definition plain_io :: "event \<Rightarrow> bool" where
  \<comment> \<open>a print or an HTTP request: what the sampler and the notification sink do\<close>
  "plain_io ev =
     (case ev of Print _ \<Rightarrow> True | RequestsGet _ _ \<Rightarrow> True | RequestsPost _ _ \<Rightarrow> True
      | _ \<Rightarrow> False)"

definition sampler_io :: "event \<Rightarrow> bool" where
  \<comment> \<open>a print or an HTTP GET: what the sampler does\<close>
  "sampler_io ev = (case ev of Print _ \<Rightarrow> True | RequestsGet _ _ \<Rightarrow> True | _ \<Rightarrow> False)"

definition is_post :: "event \<Rightarrow> bool" where
  "is_post ev = (case ev of RequestsPost _ _ \<Rightarrow> True | _ \<Rightarrow> False)"

definition executor_io :: "event \<Rightarrow> bool" where
  \<comment> \<open>a print or a call to the cluster or to the source host: what the two actions do\<close>
  "executor_io ev =
     (case ev of Enter _ \<Rightarrow> False | RequestsGet _ _ \<Rightarrow> False | RequestsPost _ _ \<Rightarrow> False
      | Sleep _ \<Rightarrow> False | _ \<Rightarrow> True)"

definition remediation_event :: "event \<Rightarrow> bool" where
  \<comment> \<open>the entry into a remediation action, or one of its calls to the cluster or source host\<close>
  "remediation_event ev =
     (case ev of
        Enter f \<Rightarrow> f = ''restart_deployment_k8s'' \<or> f = ''create_github_pr_update_helm''
      | Print _ \<Rightarrow> False | RequestsGet _ _ \<Rightarrow> False | RequestsPost _ _ \<Rightarrow> False
      | Sleep _ \<Rightarrow> False
      | _ \<Rightarrow> True)"

definition true_ignoring_case :: "string \<Rightarrow> bool" where
  \<comment> \<open>one of the sixteen spellings of \<open>true\<close>\<close>
  "true_ignoring_case v =
     (case v of
        [a, b, c, d] \<Rightarrow> a \<in> {CHR ''t'', CHR ''T''} \<and> b \<in> {CHR ''r'', CHR ''R''}
                        \<and> c \<in> {CHR ''u'', CHR ''U''} \<and> d \<in> {CHR ''e'', CHR ''E''}
      | _ \<Rightarrow> False)"

subsection \<open>A concrete library, configuration and world\<close>

definition decimal_literals :: "(string \<times> real) list" where
  "decimal_literals = [(''0.1'', 1 / 10), (''0.2'', 2 / 10), (''0.5'', 5 / 10), (''0.75'', 75 / 100)]"

definition lib0 :: pylib where
  \<comment> \<open>double arithmetic: strings and integers are rounded to the nearest double, \<open>sum\<close>
      adds from the left starting at 0 (CPython before 3.12; the compensated sum of later
      versions gives the same on the lists used below), the division is correctly rounded\<close>
  "lib0 = \<lparr> float_of_str = (\<lambda>s. map_option round_double (map_of decimal_literals s)),
            float_of_int = (\<lambda>i. case round_double (of_int i) of
                                   Fin x \<Rightarrow> Some (Fin x) | _ \<Rightarrow> None),
            float_sum = foldl float_add 0,
            float_div_len = float_div_nat,
            str_of_float = (\<lambda>x. ''<float>''),
            str_of_int = (\<lambda>i. ''<int>''),
            json_dumps = (\<lambda>j. ''<json>'') \<rparr>"

definition cfg0 :: config where
  "cfg0 = \<lparr> PROM_URL = Some ''http://prometheus:9090/'',
            NAMESPACE = ''default'',
            DEPLOYMENT_NAME = ''myapp'',
            SLACK_WEBHOOK = Some ''https://hooks.example/T0'',
            GITHUB_TOKEN = Some ''token'',
            GITHUB_REPO = Some ''owner/repo'',
            DRY_RUN = True,
            AUTO_APPLY = False,
            HELM_VALUES_PATH = ''helm-chart/myapp/values.yaml'',
            IMAGE_REPO = ''myapp'',
            CPU_THRESHOLD = Fin 0.5 \<rparr>"

definition ok_response :: "json \<Rightarrow> response" where
  "ok_response body = \<lparr> status_code = 200, resp_text = ''ok'', resp_reason = ''OK'',
                        resp_json = Inr body \<rparr>"

definition world0 :: world where
  \<comment> \<open>every call succeeds; two pods at 0.75 and 0.5 cores\<close>
  "world0 = \<lparr> utcnow_iso = (\<lambda>n. ''2024-01-01T12:00:00''),
              utcnow_stamp = ''20240101120000'',
              time_time = 1704110400,
              requests_get = Inr (ok_response (prom_data [series (JObj []) (JInt 1704110400) ''0.75'',
                                                           series (JObj []) (JInt 1704110400) ''0.5''])),
              requests_post = Inr (ok_response JNull),
              load_kube_config = None,
              load_incluster_config = None,
              patch_namespaced_deployment = None,
              get_repo = None,
              get_branch = Inr ''abc123'',
              create_git_ref = None,
              get_contents = Inr \<lparr> path = ''helm-chart/myapp/values.yaml'', sha = ''def456'',
                                    decoded_content = Inr ''replicas: 2'' \<rparr>,
              update_file = None,
              create_pull = Inr ''https://github.example/owner/repo/pull/1'' \<rparr>"

definition env0 :: environ where
  \<comment> \<open>an environment without \<open>PROMETHEUS_URL\<close>, \<open>DRY_RUN\<close> and \<open>AUTO_APPLY\<close>\<close>
  "env0 = map_of [(''NAMESPACE'', ''default''), (''DEPLOYMENT_NAME'', ''myapp'')]"

definition env1 :: environ where
  "env1 = map_of [(''PROMETHEUS_URL'', ''http://prometheus:9090/''), (''DRY_RUN'', ''yes'')]"

definition world1 :: world where
  \<comment> \<open>as \<open>world0\<close>, with two pods at 0.1 and 0.2 cores\<close>
  "world1 = world0\<lparr> requests_get :=
              Inr (ok_response (prom_data [series (JObj []) (JInt 1704110400) ''0.1'',
                                           series (JObj []) (JInt 1704110400) ''0.2''])) \<rparr>"

definition boom :: py_exn where
  "boom = PyExn ''Exception'' ''boom''"

named_theorems io_simps

section \<open>Properties of the floats\<close>

lemma less_Fin [simp]: "Fin x < Fin y \<longleftrightarrow> x < y"
  by (simp add: less_pyfloat_def)

lemma less_eq_Fin [simp]: "Fin x \<le> Fin y \<longleftrightarrow> x \<le> y"
  by (auto simp: less_eq_pyfloat_def)

lemma not_less_self: "\<not> (a :: pyfloat) < a"
  by (cases a) (simp_all add: less_pyfloat_def)

lemma not_less_zero: "0 \<le> (t :: pyfloat) \<Longrightarrow> \<not> t < 0"
  by (cases t) (auto simp: less_eq_pyfloat_def less_pyfloat_def zero_pyfloat_def)

lemma pow2_powr: "pow2 e = 2 powr (of_int e)"
  by (simp add: pow2_def powr_real_of_int divide_inverse)

text \<open>Rounding a value whose binade is known: \<open>2^k \<le> |x| < 2^(k+1)\<close>.\<close>

lemma round_double_binade:
  assumes "pow2 k \<le> \<bar>x\<bar>" and "\<bar>x\<bar> < pow2 (k + 1)" and "- 1022 \<le> k"
  shows "round_double x =
     (let y = of_int (rne (x / pow2 (k - 52))) * pow2 (k - 52)
      in if 2 ^ 1024 \<le> \<bar>y\<bar> then (if 0 < x then PInf else NInf) else Fin y)"
proof -
  have p: "0 < pow2 k" by (simp add: pow2_def)
  then have x: "0 < \<bar>x\<bar>" using assms(1) by linarith
  then have nz: "x \<noteq> 0" by auto
  have "\<lfloor>log 2 \<bar>x\<bar>\<rfloor> = k"
    using floor_log_eq_powr_iff[of "\<bar>x\<bar>" 2 k] x assms(1,2) by (simp add: pow2_powr)
  then have "max (\<lfloor>log 2 \<bar>x\<bar>\<rfloor> - 52) (- 1074) = k - 52" using assms(3) by simp
  then show ?thesis using nz by (simp add: round_double_def Let_def)
qed

lemma round_double_tenth: "round_double (1 / 10) = Fin (3602879701896397 / 2 ^ 55)"
  by (subst round_double_binade[where k = "-4"]) (simp_all add: pow2_def rne_def Let_def)

lemma round_double_fifth: "round_double (1 / 5) = Fin (3602879701896397 / 2 ^ 54)"
  by (subst round_double_binade[where k = "-3"]) (simp_all add: pow2_def rne_def Let_def)

lemma round_double_sum_tenth_fifth:
  "round_double (3602879701896397 / 2 ^ 55 + 3602879701896397 / 2 ^ 54)
     = Fin (1351079888211149 / 2 ^ 52)"
  by (subst round_double_binade[where k = "-2"]) (simp_all add: pow2_def rne_def Let_def)

lemma round_double_half_sum:
  "round_double ((1351079888211149 / 2 ^ 52) / 2) = Fin (1351079888211149 / 2 ^ 53)"
  by (subst round_double_binade[where k = "-3"]) (simp_all add: pow2_def rne_def Let_def)

lemma round_double_half: "round_double (1 / 2) = Fin (1 / 2)"
  by (subst round_double_binade[where k = "-1"]) (simp_all add: pow2_def rne_def Let_def)

lemma round_double_three_quarters: "round_double (3 / 4) = Fin (3 / 4)"
  by (subst round_double_binade[where k = "-1"]) (simp_all add: pow2_def rne_def Let_def)

lemma round_double_five_quarters: "round_double (5 / 4) = Fin (5 / 4)"
  by (subst round_double_binade[where k = "0"]) (simp_all add: pow2_def rne_def Let_def)

lemma round_double_five_eighths: "round_double (5 / 8) = Fin (5 / 8)"
  by (subst round_double_binade[where k = "-1"]) (simp_all add: pow2_def rne_def Let_def)

lemma lib0_parse:
  "float_of_str lib0 ''0.1'' = Some (Fin (3602879701896397 / 2 ^ 55))"
  "float_of_str lib0 ''0.2'' = Some (Fin (3602879701896397 / 2 ^ 54))"
  "float_of_str lib0 ''0.5'' = Some (Fin (1 / 2))"
  "float_of_str lib0 ''0.75'' = Some (Fin (3 / 4))"
  by (simp_all add: lib0_def decimal_literals_def round_double_tenth round_double_fifth
        round_double_half round_double_three_quarters)

lemma lib0_mean_world0:
  "float_div_len lib0 (float_sum lib0 [Fin (3 / 4), Fin (1 / 2)]) (length [Fin (3 / 4), Fin (1 / 2)])
     = Fin (5 / 8)"
  by (simp add: lib0_def float_add_def float_div_nat_def zero_pyfloat_def
        round_double_three_quarters round_double_five_quarters round_double_five_eighths)

lemma lib0_mean_world1:
  "float_div_len lib0 (float_sum lib0 [Fin (3602879701896397 / 2 ^ 55), Fin (3602879701896397 / 2 ^ 54)])
     (length [Fin (3602879701896397 / 2 ^ 55), Fin (3602879701896397 / 2 ^ 54)])
     = Fin (1351079888211149 / 2 ^ 53)"
proof -
  have z: "round_double (0 + 3602879701896397 / 2 ^ 55) = Fin (3602879701896397 / 2 ^ 55)"
    by (subst round_double_binade[where k = "-4"]) (simp_all add: pow2_def rne_def Let_def)
  have s: "float_sum lib0 [Fin (3602879701896397 / 2 ^ 55), Fin (3602879701896397 / 2 ^ 54)]
             = Fin (1351079888211149 / 2 ^ 52)"
    unfolding lib0_def
    by (simp add: float_add_def zero_pyfloat_def z[simplified] round_double_sum_tenth_fifth[simplified])
  show ?thesis
    unfolding s using round_double_half_sum
    by (simp add: lib0_def float_div_nat_def)
qed

section \<open>Properties of the string functions\<close>

lemma sublist_iff_take_drop:
  "sublist xs ys \<longleftrightarrow> (\<exists>i\<le>length ys. take (length xs) (drop i ys) = xs)"
proof
  assume "sublist xs ys"
  then obtain ps ss where "ys = ps @ xs @ ss" by (auto simp: sublist_def)
  then have "length ps \<le> length ys \<and> take (length xs) (drop (length ps) ys) = xs" by simp
  then show "\<exists>i\<le>length ys. take (length xs) (drop i ys) = xs" by blast
next
  assume "\<exists>i\<le>length ys. take (length xs) (drop i ys) = xs"
  then obtain i where i: "take (length xs) (drop i ys) = xs" by blast
  have "ys = take i ys @ take (length xs) (drop i ys) @ drop (length xs) (drop i ys)"
    by (simp only: append_take_drop_id)
  with i have "ys = take i ys @ xs @ drop (length xs) (drop i ys)" by simp
  then show "sublist xs ys" unfolding sublist_def by blast
qed

lemma py_in_lower_iff: "py_in kw (lower s) \<longleftrightarrow> occurs_ignoring_case kw s"
proof -
  have "py_in kw (lower s) \<longleftrightarrow> (\<exists>i\<le>length s. take (length kw) (drop i (map lower_char s)) = kw)"
    by (simp add: py_in_def lower_def sublist_iff_take_drop)
  also have "\<dots> \<longleftrightarrow> (\<exists>i\<le>length s. lower (take (length kw) (drop i s)) = kw)"
    by (simp add: lower_def take_map drop_map)
  also have "\<dots> \<longleftrightarrow> occurs_ignoring_case kw s"
  proof -
    have "set [0..<Suc (length s)] = {i. i \<le> length s}" by auto
    then show ?thesis unfolding occurs_ignoring_case_def list_ex_iff by blast
  qed
  finally show ?thesis .
qed

lemma high_cpu_redundant: "py_in ''high cpu'' t \<Longrightarrow> py_in ''cpu'' t"
proof -
  assume "py_in ''high cpu'' t"
  then obtain ps ss where "t = ps @ ''high cpu'' @ ss" by (auto simp: py_in_def sublist_def)
  then have "t = (ps @ ''high '') @ ''cpu'' @ ss" by simp
  then show ?thesis unfolding py_in_def sublist_def by blast
qed

lemma lines_of_cpu_plan: "lines_of (join newline cpu_plan) = cpu_plan"
  by (simp add: lines_of_def newline_def cpu_plan_def)

lemma lines_of_generic_plan: "lines_of generic_plan = [generic_plan]"
  by (simp add: lines_of_def generic_plan_def)

lemma simple_llm_reasoning_eq:
  "simple_llm_reasoning issue_text =
     (if occurs_ignoring_case ''cpu'' issue_text then join newline cpu_plan else generic_plan)"
proof -
  have c: "(py_in ''high cpu'' (lower issue_text) \<or> py_in ''cpu'' (lower issue_text))
        \<longleftrightarrow> occurs_ignoring_case ''cpu'' issue_text"
    using high_cpu_redundant py_in_lower_iff by blast
  show ?thesis
    unfolding simple_llm_reasoning_def c by (simp add: cpu_plan_def generic_plan_def)
qed

text \<open>
  C9. If the issue description contains "cpu" in any mix of upper and lower case, the
  planner returns the fixed plan of exactly four lines, the first of which is the scale-up
  recommendation; otherwise it returns the one-line generic plan. The planner is a function
  of the description alone.
\<close>

theorem simple_llm_reasoning_plan:
  "(occurs_ignoring_case ''cpu'' issue_text \<longrightarrow>
      simple_llm_reasoning issue_text = join newline cpu_plan
      \<and> lines_of (simple_llm_reasoning issue_text) = cpu_plan
      \<and> length (lines_of (simple_llm_reasoning issue_text)) = 4
      \<and> hd (lines_of (simple_llm_reasoning issue_text))
          = ''Scale up replica count (increase replicas by 1 or 2)'')
   \<and> (\<not> occurs_ignoring_case ''cpu'' issue_text \<longrightarrow>
      simple_llm_reasoning issue_text = ''Investigate further, check logs and recent deployments''
      \<and> length (lines_of (simple_llm_reasoning issue_text)) = 1)"
proof (cases "occurs_ignoring_case ''cpu'' issue_text")
  case True
  then have "simple_llm_reasoning issue_text = join newline cpu_plan"
    by (simp add: simple_llm_reasoning_eq)
  with True show ?thesis
    by (simp add: lines_of_cpu_plan) (simp add: cpu_plan_def)
next
  case False
  then have "simple_llm_reasoning issue_text = generic_plan"
    by (simp add: simple_llm_reasoning_eq)
  with False show ?thesis
    by (simp add: lines_of_generic_plan) (simp add: generic_plan_def)
qed

theorem simple_llm_reasoning_plan_witness:
  "occurs_ignoring_case ''cpu'' ''High CPU detected for myapp''
   \<and> length (lines_of (simple_llm_reasoning ''High CPU detected for myapp'')) = 4
   \<and> hd (lines_of (simple_llm_reasoning ''High CPU detected for myapp''))
       = ''Scale up replica count (increase replicas by 1 or 2)''
   \<and> \<not> occurs_ignoring_case ''cpu'' ''disk full''
   \<and> simple_llm_reasoning ''disk full'' = ''Investigate further, check logs and recent deployments''"
proof -
  have h1: "occurs_ignoring_case ''cpu'' ''High CPU detected for myapp''"
    by (simp add: occurs_ignoring_case_def lower_def lower_char_def upt_rec)
  have h2: "\<not> occurs_ignoring_case ''cpu'' ''disk full''"
    by (simp add: occurs_ignoring_case_def lower_def lower_char_def upt_rec)
  show ?thesis
    using h1 h2 simple_llm_reasoning_plan [of "''High CPU detected for myapp''"]
      simple_llm_reasoning_plan [of "''disk full''"]
    by blast
qed

section \<open>Properties of the values-file edit\<close>

lemma join_Cons: "ps \<noteq> [] \<Longrightarrow> join sep (p # ps) = p @ sep @ join sep ps"
  by (cases ps) simp_all

lemma join_Cons_Cons: "join sep ((c # p) # ps) = c # join sep (p # ps)"
  by (cases ps) simp_all

lemma prefix_join: "prefix p (join sep (p # ps))"
  by (cases ps) simp_all

lemma two_elements: "2 \<le> length ps \<Longrightarrow> \<exists>p q qs. ps = p # q # qs"
  by (cases ps; cases "tl ps") auto

lemma one_element: "ps \<noteq> [] \<Longrightarrow> \<not> 2 \<le> length ps \<Longrightarrow> \<exists>p. ps = [p]"
  by (cases ps; cases "tl ps") auto

lemma sublist_join: "2 \<le> length ps \<Longrightarrow> sublist sep (join sep ps)"
proof -
  assume "2 \<le> length ps"
  then obtain p q qs where "ps = p # q # qs" using two_elements by blast
  then have "join sep ps = p @ sep @ join sep (q # qs)" by simp
  then show ?thesis by (simp add: sublist_def) blast
qed

lemma length_join:
  "ps \<noteq> [] \<Longrightarrow> length (join sep ps) = sum_list (map length ps) + (length ps - 1) * length sep"
  by (induction sep ps rule: join.induct) simp_all

text \<open>
  \<open>replace\<close> cuts the text at every match: the pieces between the matches hold no
  further match, the text is the pieces joined by \<open>old\<close> and the result is the same pieces
  joined by \<open>new\<close>.
\<close>

lemma py_replace_decomp:
  assumes "old \<noteq> []"
  shows "\<exists>ps. ps \<noteq> [] \<and> (\<forall>p\<in>set ps. \<not> sublist old p) \<and> s = join old ps
           \<and> py_replace old new s = join new ps"
  using assms
proof (induction old new s rule: py_replace.induct)
  case (1 old new s)
  show ?case
  proof (cases "s = []")
    case True
    have "py_replace old new [] = []" using 1(3) by (simp add: py_replace.simps)
    with True 1(3) have "[[]] \<noteq> [] \<and> (\<forall>p\<in>set [[]]. \<not> sublist old p) \<and> s = join old [[]]
           \<and> py_replace old new s = join new [[]]" by simp
    then show ?thesis by blast
  next
    case False
    show ?thesis
    proof (cases "prefix old s")
      case True
      from 1(1)[OF 1(3) False True 1(3)] obtain ps where
        ps: "ps \<noteq> []" "\<forall>p\<in>set ps. \<not> sublist old p" "drop (length old) s = join old ps"
            "py_replace old new (drop (length old) s) = join new ps" by blast
      from True have s: "s = old @ drop (length old) s"
        by (metis append_eq_conv_conj prefixE)
      have r: "py_replace old new s = new @ py_replace old new (drop (length old) s)"
        using 1(3) False True by (subst py_replace.simps) simp
      have "join old ([] # ps) = s" using ps(1,3) s by (simp add: join_Cons)
      moreover have "py_replace old new s = join new ([] # ps)"
        using r ps(1,4) by (simp add: join_Cons)
      moreover have "\<forall>p\<in>set ([] # ps). \<not> sublist old p" using ps(2) 1(3) by simp
      ultimately have "[] # ps \<noteq> [] \<and> (\<forall>p\<in>set ([] # ps). \<not> sublist old p)
           \<and> s = join old ([] # ps) \<and> py_replace old new s = join new ([] # ps)" by simp
      then show ?thesis by blast
    next
      case np: False
      from 1(2)[OF 1(3) False np 1(3)] obtain ps where
        ps: "ps \<noteq> []" "\<forall>p\<in>set ps. \<not> sublist old p" "tl s = join old ps"
            "py_replace old new (tl s) = join new ps" by blast
      from ps(1) obtain p0 ps' where pc: "ps = p0 # ps'" by (cases ps) auto
      from False obtain c where s: "s = c # tl s" by (cases s) auto
      have r: "py_replace old new s = hd s # py_replace old new (tl s)"
        using 1(3) False np by (subst py_replace.simps) simp
      have j: "join old ((c # p0) # ps') = s" using ps(3) pc s by (simp add: join_Cons_Cons)
      have j': "py_replace old new s = join new ((c # p0) # ps')"
        using r ps(4) pc s by (metis join_Cons_Cons list.sel(1))
      have "prefix (c # p0) s" using j prefix_join by metis
      then have "\<not> prefix old (c # p0)" using np by (meson prefix_order.trans)
      moreover have "\<not> sublist old p0" using ps(2) pc by simp
      ultimately have "\<not> sublist old (c # p0)" by (simp add: sublist_Cons_right)
      then have "\<forall>p\<in>set ((c # p0) # ps'). \<not> sublist old p" using ps(2) pc by simp
      with j j' have "(c # p0) # ps' \<noteq> [] \<and> (\<forall>p\<in>set ((c # p0) # ps'). \<not> sublist old p)
           \<and> s = join old ((c # p0) # ps') \<and> py_replace old new s = join new ((c # p0) # ps')"
        by simp
      then show ?thesis by blast
    qed
  qed
qed

lemma py_replace_absent:
  assumes "old \<noteq> []" and "\<not> sublist old s"
  shows "py_replace old new s = s"
proof -
  from py_replace_decomp[OF assms(1)] obtain ps where
    ps: "ps \<noteq> []" "s = join old ps" "py_replace old new s = join new ps" by blast
  have "\<not> 2 \<le> length ps" using sublist_join[of ps old] ps(2) assms(2) by auto
  with ps(1) obtain p where "ps = [p]" using one_element by blast
  with ps show ?thesis by simp
qed

lemma join_sep_eq:
  assumes "2 \<le> length ps" and "join new ps = join old ps"
  shows "new = old"
proof -
  from assms(1) obtain p q qs where pq: "ps = p # q # qs" using two_elements by blast
  have ne: "ps \<noteq> []" using pq by simp
  have "length (join new ps) = length (join old ps)" using assms(2) by simp
  then have "(length ps - 1) * length new = (length ps - 1) * length old"
    by (simp add: length_join[OF ne])
  then have l: "length new = length old" using assms(1) by simp
  from assms(2) pq have "new @ join new (q # qs) = old @ join old (q # qs)" by simp
  with l show ?thesis by simp
qed

lemma tag_line_eq: "tag_line t = tag_line u \<longleftrightarrow> t = u"
  by (simp add: tag_line_def dquote_def)

lemma tag_line_nonempty: "tag_line t \<noteq> []"
  by (simp add: tag_line_def)

text \<open>
  C6. For every original content of the values file and every new tag: if the placeholder
  \<open>tag: "latest"\<close> does not occur in the content, the new content is the original followed
  by one comment line that names the tag; if it occurs, the content is cut at every
  occurrence (at least one) into pieces free of the placeholder, and the new content is
  these pieces with \<open>tag: "<new tag>"\<close> in the place of each occurrence. (Only for the
  tag \<open>latest\<close> itself, which leaves the text unchanged, the comment line is appended as
  well.) Computing the new content never fails.
\<close>

theorem helm_new_content_spec:
  "(\<not> py_in (tag_line ''latest'') original \<longrightarrow>
      helm_new_content original new_tag
        = original @ newline @ ''# agent update: tag '' @ new_tag @ newline)
   \<and> (py_in (tag_line ''latest'') original \<longrightarrow>
      (\<exists>ps. 2 \<le> length ps \<and> (\<forall>p\<in>set ps. \<not> py_in (tag_line ''latest'') p)
         \<and> original = join (tag_line ''latest'') ps
         \<and> helm_new_content original new_tag =
             join (tag_line new_tag) ps
             @ (if new_tag = ''latest'' then agent_comment new_tag else [])))"
proof (intro conjI impI)
  assume "\<not> py_in (tag_line ''latest'') original"
  then have "py_replace (tag_line ''latest'') (tag_line new_tag) original = original"
    by (simp add: py_in_def py_replace_absent tag_line_nonempty)
  then show "helm_new_content original new_tag
               = original @ newline @ ''# agent update: tag '' @ new_tag @ newline"
    by (simp add: helm_new_content_def)
next
  assume occ: "py_in (tag_line ''latest'') original"
  from py_replace_decomp[OF tag_line_nonempty, of "''latest''" original "tag_line new_tag"]
  obtain ps where
    ps: "ps \<noteq> []" "\<forall>p\<in>set ps. \<not> sublist (tag_line ''latest'') p"
        "original = join (tag_line ''latest'') ps"
        "py_replace (tag_line ''latest'') (tag_line new_tag) original = join (tag_line new_tag) ps"
    by blast
  have two: "2 \<le> length ps"
  proof (rule ccontr)
    assume "\<not> 2 \<le> length ps"
    with ps(1) obtain p where "ps = [p]" using one_element by blast
    with ps(2,3) occ show False by (simp add: py_in_def)
  qed
  have same: "join (tag_line new_tag) ps = original \<longleftrightarrow> new_tag = ''latest''"
    using join_sep_eq[OF two, of "tag_line new_tag" "tag_line ''latest''"] ps(3) tag_line_eq
    by auto
  have "helm_new_content original new_tag =
             join (tag_line new_tag) ps
             @ (if new_tag = ''latest'' then agent_comment new_tag else [])"
    unfolding helm_new_content_def Let_def ps(4) agent_comment_def using same ps(3) by auto
  with two ps(2,3) show "\<exists>ps. 2 \<le> length ps \<and> (\<forall>p\<in>set ps. \<not> py_in (tag_line ''latest'') p)
         \<and> original = join (tag_line ''latest'') ps
         \<and> helm_new_content original new_tag =
             join (tag_line new_tag) ps
             @ (if new_tag = ''latest'' then agent_comment new_tag else [])"
    unfolding py_in_def by blast
qed

theorem helm_new_content_spec_witness:
  "\<not> py_in (tag_line ''latest'') ''replicas: 2''
   \<and> helm_new_content ''replicas: 2'' ''agent-20240101120000''
       = ''replicas: 2'' @ newline @ ''# agent update: tag agent-20240101120000'' @ newline
   \<and> py_in (tag_line ''latest'') (''image: '' @ tag_line ''latest'')
   \<and> (\<exists>ps. 2 \<le> length ps \<and> (\<forall>p\<in>set ps. \<not> py_in (tag_line ''latest'') p)
         \<and> ''image: '' @ tag_line ''latest'' = join (tag_line ''latest'') ps
         \<and> helm_new_content (''image: '' @ tag_line ''latest'') ''agent-20240101120000''
             = join (tag_line ''agent-20240101120000'') ps)"
proof -
  have h1: "\<not> py_in (tag_line ''latest'') ''replicas: 2''"
    by (simp add: py_in_def tag_line_def dquote_def sublist_Cons_right)
  have h2: "py_in (tag_line ''latest'') (''image: '' @ tag_line ''latest'')"
    unfolding py_in_def by (rule sublist_append_leftI)
  have c1: "helm_new_content ''replicas: 2'' ''agent-20240101120000''
       = ''replicas: 2'' @ newline @ ''# agent update: tag '' @ ''agent-20240101120000'' @ newline"
    using h1 helm_new_content_spec [of "''replicas: 2''" "''agent-20240101120000''"] by blast
  have c2: "\<exists>ps. 2 \<le> length ps \<and> (\<forall>p\<in>set ps. \<not> py_in (tag_line ''latest'') p)
         \<and> ''image: '' @ tag_line ''latest'' = join (tag_line ''latest'') ps
         \<and> helm_new_content (''image: '' @ tag_line ''latest'') ''agent-20240101120000''
             = join (tag_line ''agent-20240101120000'') ps"
    using h2 helm_new_content_spec [of "''image: '' @ tag_line ''latest''" "''agent-20240101120000''"]
    by simp
  from c1 have c1': "helm_new_content ''replicas: 2'' ''agent-20240101120000''
       = ''replicas: 2'' @ newline @ ''# agent update: tag agent-20240101120000'' @ newline"
    by simp
  show ?thesis using h1 h2 c1' c2 by blast
qed

section \<open>Effects: sequencing and exception handling\<close>

lemma bind_Inl [io_simps]: "bind (t, Inl e) k = (t, Inl e)"
  by (simp add: bind_def)

lemma bind_Inr [io_simps]: "bind (t, Inr x) k = (t @ fst (k x), snd (k x))"
  by (simp add: bind_def split: prod.splits)

lemma catch_Inl [io_simps]: "catch (t, Inl e) h = (t @ fst (h e), snd (h e))"
  by (simp add: catch_def split: prod.splits)

lemma catch_Inr [io_simps]: "catch (t, Inr x) h = (t, Inr x)"
  by (simp add: catch_def)

lemma try_step_Inl [io_simps]: "try_step (t, Inl e) f k = (t, Inr (f e))"
  by (simp add: try_step_def)

lemma try_step_Inr [io_simps]: "try_step (t, Inr x) f k = (t @ fst (k x), snd (k x))"
  by (simp add: try_step_def split: prod.splits)

lemmas io_defs = ret_def raise_def emit_def call_def call_unit_def

lemma bind_eq:
  "bind m k = (case snd m of Inl e \<Rightarrow> (fst m, Inl e)
               | Inr x \<Rightarrow> (fst m @ fst (k x), snd (k x)))"
  by (cases m; cases "snd m") (auto simp: io_simps)

lemma catch_eq:
  "catch m h = (case snd m of Inl e \<Rightarrow> (fst m @ fst (h e), snd (h e))
               | Inr x \<Rightarrow> (fst m, Inr x))"
  by (cases m; cases "snd m") (auto simp: io_simps)

section \<open>Properties of the notification sink\<close>

text \<open>
  C5, as the code has it. Without a webhook (unset or empty) the message is printed to the
  process log, the call returns normally and makes no network request. With a webhook the
  call always returns normally, whatever the request does, and makes exactly one POST (no
  retry); an exception of the request is logged, and so is every response status from 300
  upwards (every 3xx, 4xx and 5xx status); for a status below 300, a 1xx status included,
  nothing is logged.
\<close>

theorem post_slack_spec:
  "(falsy (SLACK_WEBHOOK cfg) \<longrightarrow>
      post_slack L cfg w message
        = ([Enter ''post_slack'', Print (''Slack webhook not configured. Message: '' @ message)], Inr ()))
   \<and> (SLACK_WEBHOOK cfg = Some url \<and> url \<noteq> [] \<longrightarrow>
        snd (post_slack L cfg w message) = Inr ()
      \<and> filter is_network_request (fst (post_slack L cfg w message)) = [RequestsPost url message]
      \<and> (\<forall>e. requests_post w = Inl e \<longrightarrow>
            fst (post_slack L cfg w message)
              = [Enter ''post_slack'', RequestsPost url message,
                 Print (''Slack post exception: '' @ exn_str e)])
      \<and> (\<forall>resp. requests_post w = Inr resp \<and> 300 \<le> status_code resp \<longrightarrow>
            fst (post_slack L cfg w message)
              = [Enter ''post_slack'', RequestsPost url message,
                 Print (''Slack post failed: '' @ str_of_int L (status_code resp) @ '' ''
                        @ resp_text resp)])
      \<and> (\<forall>resp. requests_post w = Inr resp \<and> status_code resp < 300 \<longrightarrow>
            fst (post_slack L cfg w message) = [Enter ''post_slack'', RequestsPost url message]))"
proof (intro conjI impI)
  assume "falsy (SLACK_WEBHOOK cfg)"
  then show "post_slack L cfg w message
        = ([Enter ''post_slack'', Print (''Slack webhook not configured. Message: '' @ message)], Inr ())"
    by (auto simp: post_slack_def falsy_def io_defs io_simps split: option.splits)
next
  assume a: "SLACK_WEBHOOK cfg = Some url \<and> url \<noteq> []"
  have p: "post_slack L cfg w message =
     (case requests_post w of
        Inl e \<Rightarrow> ([Enter ''post_slack'', RequestsPost url message,
                   Print (''Slack post exception: '' @ exn_str e)], Inr ())
      | Inr resp \<Rightarrow>
          if 300 \<le> status_code resp
          then ([Enter ''post_slack'', RequestsPost url message,
                 Print (''Slack post failed: '' @ str_of_int L (status_code resp) @ '' ''
                        @ resp_text resp)], Inr ())
          else ([Enter ''post_slack'', RequestsPost url message], Inr ()))"
    using a by (cases "requests_post w") (simp_all add: post_slack_def io_defs io_simps)
  show "snd (post_slack L cfg w message) = Inr ()"
    unfolding p by (simp split: sum.splits)
  show "filter is_network_request (fst (post_slack L cfg w message)) = [RequestsPost url message]"
    unfolding p by (simp add: is_network_request_def split: sum.splits)
  show "\<forall>e. requests_post w = Inl e \<longrightarrow>
            fst (post_slack L cfg w message)
              = [Enter ''post_slack'', RequestsPost url message,
                 Print (''Slack post exception: '' @ exn_str e)]"
    unfolding p by simp
  show "\<forall>resp. requests_post w = Inr resp \<and> 300 \<le> status_code resp \<longrightarrow>
            fst (post_slack L cfg w message)
              = [Enter ''post_slack'', RequestsPost url message,
                 Print (''Slack post failed: '' @ str_of_int L (status_code resp) @ '' ''
                        @ resp_text resp)]"
    unfolding p by simp
  show "\<forall>resp. requests_post w = Inr resp \<and> status_code resp < 300 \<longrightarrow>
            fst (post_slack L cfg w message) = [Enter ''post_slack'', RequestsPost url message]"
    unfolding p by simp
qed


theorem post_slack_spec_witness:
  "falsy (SLACK_WEBHOOK (cfg0\<lparr>SLACK_WEBHOOK := None\<rparr>))
   \<and> post_slack lib0 (cfg0\<lparr>SLACK_WEBHOOK := None\<rparr>) world0 ''hi''
       = ([Enter ''post_slack'', Print ''Slack webhook not configured. Message: hi''], Inr ())
   \<and> SLACK_WEBHOOK cfg0 = Some ''https://hooks.example/T0''
   \<and> snd (post_slack lib0 cfg0 (world0\<lparr>requests_post := Inl boom\<rparr>) ''hi'') = Inr ()
   \<and> fst (post_slack lib0 cfg0 (world0\<lparr>requests_post := Inl boom\<rparr>) ''hi'')
       = [Enter ''post_slack'', RequestsPost ''https://hooks.example/T0'' ''hi'',
          Print ''Slack post exception: boom'']
   \<and> fst (post_slack lib0 cfg0
             (world0\<lparr>requests_post := Inr ((ok_response JNull)\<lparr>status_code := 503\<rparr>)\<rparr>) ''hi'')
       = [Enter ''post_slack'', RequestsPost ''https://hooks.example/T0'' ''hi'',
          Print ''Slack post failed: <int> ok'']
   \<and> fst (post_slack lib0 cfg0 world0 ''hi'')
       = [Enter ''post_slack'', RequestsPost ''https://hooks.example/T0'' ''hi'']"
proof -
  have h0: "falsy (SLACK_WEBHOOK (cfg0\<lparr>SLACK_WEBHOOK := None\<rparr>))"
    by (simp add: falsy_def)
  have h1: "SLACK_WEBHOOK cfg0 = Some ''https://hooks.example/T0'' \<and> ''https://hooks.example/T0'' \<noteq> []"
    by (simp add: cfg0_def)
  note a = post_slack_spec [where cfg = "cfg0\<lparr>SLACK_WEBHOOK := None\<rparr>" and L = lib0
             and w = world0 and message = "''hi''"]
  note b = post_slack_spec [where cfg = cfg0 and url = "''https://hooks.example/T0''" and L = lib0
             and w = "world0\<lparr>requests_post := Inl boom\<rparr>" and message = "''hi''"]
  note c = post_slack_spec [where cfg = cfg0 and url = "''https://hooks.example/T0''" and L = lib0
             and w = "world0\<lparr>requests_post := Inr ((ok_response JNull)\<lparr>status_code := 503\<rparr>)\<rparr>"
             and message = "''hi''"]
  note d = post_slack_spec [where cfg = cfg0 and url = "''https://hooks.example/T0''" and L = lib0
             and w = world0 and message = "''hi''"]
  have r0: "post_slack lib0 (cfg0\<lparr>SLACK_WEBHOOK := None\<rparr>) world0 ''hi''
       = ([Enter ''post_slack'', Print ''Slack webhook not configured. Message: hi''], Inr ())"
    using a h0 by simp
  have r1: "snd (post_slack lib0 cfg0 (world0\<lparr>requests_post := Inl boom\<rparr>) ''hi'') = Inr ()"
    using b h1 by blast
  have r2: "fst (post_slack lib0 cfg0 (world0\<lparr>requests_post := Inl boom\<rparr>) ''hi'')
       = [Enter ''post_slack'', RequestsPost ''https://hooks.example/T0'' ''hi'',
          Print ''Slack post exception: boom'']"
    using b h1 by (simp add: boom_def)
  have r3: "fst (post_slack lib0 cfg0
             (world0\<lparr>requests_post := Inr ((ok_response JNull)\<lparr>status_code := 503\<rparr>)\<rparr>) ''hi'')
       = [Enter ''post_slack'', RequestsPost ''https://hooks.example/T0'' ''hi'',
          Print ''Slack post failed: <int> ok'']"
    using c h1 by (simp add: ok_response_def lib0_def)
  have r4: "fst (post_slack lib0 cfg0 world0 ''hi'')
       = [Enter ''post_slack'', RequestsPost ''https://hooks.example/T0'' ''hi'']"
    using d h1 by (simp add: ok_response_def world0_def)
  show ?thesis using h0 h1 r0 r1 r2 r3 r4 by simp
qed

text \<open>
  The claim C5 as stated (every status that is neither 2xx nor 3xx is logged) fails: the
  status 101 is neither, and the call logs nothing for it.
\<close>

theorem post_slack_status_counterexample:
  "SLACK_WEBHOOK cfg0 = Some ''https://hooks.example/T0''
   \<and> \<not> (200 \<le> (101 :: int) \<and> (101 :: int) < 400)
   \<and> post_slack lib0 cfg0
         (world0\<lparr>requests_post := Inr ((ok_response JNull)\<lparr>status_code := 101\<rparr>)\<rparr>) ''hi''
       = ([Enter ''post_slack'', RequestsPost ''https://hooks.example/T0'' ''hi''], Inr ())"
  by (simp add: post_slack_def cfg0_def ok_response_def io_defs io_simps)

section \<open>Properties of the metric sampler\<close>

lemma sampler_total:
  "\<exists>avg results. snd (get_average_cpu_for_deployment L cfg w d n) = Inr (avg, results)"
  unfolding get_average_cpu_for_deployment_def Let_def catch_eq
  by (cases "snd (sampler_try_block L cfg w (prom_query_text d n))")
     (auto simp: io_defs io_simps)

lemma sampler_on_error:
  "snd (sampler_try_block L cfg w (prom_query_text d n)) = Inl e \<Longrightarrow>
   get_average_cpu_for_deployment L cfg w d n
     = (fst (sampler_try_block L cfg w (prom_query_text d n)) @ [Print (''Prom query error: '' @ exn_str e)],
        Inr (0, JArr []))"
  unfolding get_average_cpu_for_deployment_def Let_def catch_eq
  by (simp add: io_defs io_simps)

lemma sampler_on_value:
  "snd (sampler_try_block L cfg w (prom_query_text d n)) = Inr r \<Longrightarrow>
   get_average_cpu_for_deployment L cfg w d n
     = (fst (sampler_try_block L cfg w (prom_query_text d n)), Inr r)"
  unfolding get_average_cpu_for_deployment_def Let_def catch_eq
  by simp

lemma try_block_query_error:
  "snd (query_prometheus cfg w q) = Inl e \<Longrightarrow>
   sampler_try_block L cfg w q = (fst (query_prometheus cfg w q), Inl e)"
  unfolding sampler_try_block_def bind_eq[of "query_prometheus cfg w q"] by simp

lemma collect_values_series:
  "list_all2 (\<lambda>r v. \<exists>m ts sv. r = series m ts sv \<and> float_of_str L sv = Some v) rs vs \<Longrightarrow>
   collect_values L rs = ([], Inr vs)"
proof (induction rs vs rule: list_all2_induct)
  case Nil
  then show ?case by (simp add: io_defs)
next
  case (Cons r rs v vs)
  then obtain m ts sv where r: "r = series m ts sv" "float_of_str L sv = Some v" by blast
  show ?case
    using Cons.IH r
    by (simp add: series_def getitem_str_def getitem_nat_def py_float_def io_defs io_simps)
qed

lemma matching_series_Some:
  "matching_series data = Some results \<Longrightarrow>
   bind (dict_get data ''data'' (JObj [])) (\<lambda>d. dict_get d ''result'' (JArr [])) = ([], Inr results)"
  unfolding matching_series_def
  by (auto simp: dict_get_def io_defs io_simps split: json.splits option.splits prod.splits sum.splits)

lemma try_block_series:
  assumes q: "query_prometheus cfg w q = (t, Inr data)"
    and m: "matching_series data = Some (JArr rs)"
    and v: "collect_values L rs = ([], Inr vs)"
  shows "sampler_try_block L cfg w q
           = (t, Inr (if vs \<noteq> [] then float_div_len L (float_sum L vs) (length vs) else 0,
                      JArr rs))"
proof -
  from matching_series_Some[OF m] obtain d where
    d: "dict_get data ''data'' (JObj []) = ([], Inr d)" "dict_get d ''result'' (JArr []) = ([], Inr (JArr rs))"
    by (auto simp: dict_get_def io_defs io_simps split: json.splits option.splits)
  show ?thesis
    unfolding sampler_try_block_def q
    by (simp add: io_simps d v py_iter_def io_defs)
qed

lemma matching_series_prom_data: "matching_series (prom_data rs) = Some (JArr rs)"
  by (simp add: matching_series_def prom_data_def dict_get_def io_defs io_simps)

lemma query_answer:
  assumes "PROM_URL cfg = Some ''http://prometheus:9090/''"
    and "requests_get w = Inr (ok_response body)"
  shows "query_prometheus cfg w q
           = ([RequestsGet ''http://prometheus:9090/api/v1/query'' q], Inr body)"
  using assms
  by (simp add: query_prometheus_def ok_response_def rstrip_slash_def
        raise_for_status_def io_defs io_simps)

lemma sampler_on_series:
  assumes "PROM_URL cfg = Some ''http://prometheus:9090/''"
    and "requests_get w = Inr (ok_response (prom_data rs))"
    and "list_all2 (\<lambda>r v. \<exists>m ts sv. r = series m ts sv \<and> float_of_str L sv = Some v) rs vs"
  shows "snd (get_average_cpu_for_deployment L cfg w d n)
           = Inr (if vs \<noteq> [] then float_div_len L (float_sum L vs) (length vs) else 0, JArr rs)"
proof -
  have "sampler_try_block L cfg w (prom_query_text d n)
          = ([RequestsGet ''http://prometheus:9090/api/v1/query'' (prom_query_text d n)],
             Inr (if vs \<noteq> [] then float_div_len L (float_sum L vs) (length vs) else 0, JArr rs))"
    by (rule try_block_series[OF query_answer[OF assms(1,2)] matching_series_prom_data
          collect_values_series[OF assms(3)]])
  then show ?thesis by (simp add: sampler_on_value)
qed

text \<open>
  C4, as the code has it. The sampler never raises. If the query raises, or anything else
  in the \<open>try\<close> block does, it returns the average 0 and the empty list. If the answer
  holds an empty list of series, it returns 0 and that empty list. If the answer holds
  \<open>n > 0\<close> series whose values parse to the floats \<open>vs\<close>, it returns the unweighted float
  quotient \<open>sum(vs) / n\<close>: Python's float sum of the values, divided by \<open>n\<close> in float
  arithmetic. That is the arithmetic mean up to the rounding of the sum and of the
  division.
\<close>

theorem sampler_spec:
  "(\<exists>avg results. snd (get_average_cpu_for_deployment L cfg w d n) = Inr (avg, results))
   \<and> (\<forall>e. snd (query_prometheus cfg w (prom_query_text d n)) = Inl e \<longrightarrow>
          snd (get_average_cpu_for_deployment L cfg w d n) = Inr (0, JArr []))
   \<and> (\<forall>e. snd (sampler_try_block L cfg w (prom_query_text d n)) = Inl e \<longrightarrow>
          snd (get_average_cpu_for_deployment L cfg w d n) = Inr (0, JArr []))
   \<and> (\<forall>t data. query_prometheus cfg w (prom_query_text d n) = (t, Inr data)
          \<and> matching_series data = Some (JArr []) \<longrightarrow>
          snd (get_average_cpu_for_deployment L cfg w d n) = Inr (0, JArr []))
   \<and> (\<forall>t data rs vs. query_prometheus cfg w (prom_query_text d n) = (t, Inr data)
          \<and> matching_series data = Some (JArr rs)
          \<and> list_all2 (\<lambda>r v. \<exists>m ts sv. r = series m ts sv \<and> float_of_str L sv = Some v) rs vs
          \<and> vs \<noteq> [] \<longrightarrow>
          snd (get_average_cpu_for_deployment L cfg w d n)
            = Inr (float_div_len L (float_sum L vs) (length vs), JArr rs))"
proof (intro conjI allI impI)
  show "\<exists>avg results. snd (get_average_cpu_for_deployment L cfg w d n) = Inr (avg, results)"
    by (rule sampler_total)
next
  fix e assume "snd (query_prometheus cfg w (prom_query_text d n)) = Inl e"
  then have "snd (sampler_try_block L cfg w (prom_query_text d n)) = Inl e"
    by (simp add: try_block_query_error)
  then show "snd (get_average_cpu_for_deployment L cfg w d n) = Inr (0, JArr [])"
    by (simp add: sampler_on_error)
next
  fix e assume "snd (sampler_try_block L cfg w (prom_query_text d n)) = Inl e"
  then show "snd (get_average_cpu_for_deployment L cfg w d n) = Inr (0, JArr [])"
    by (simp add: sampler_on_error)
next
  fix t data
  assume a: "query_prometheus cfg w (prom_query_text d n) = (t, Inr data)
          \<and> matching_series data = Some (JArr [])"
  have "collect_values L [] = ([], Inr [])" by (simp add: ret_def)
  with a have "sampler_try_block L cfg w (prom_query_text d n) = (t, Inr (0, JArr []))"
    using try_block_series[of cfg w "prom_query_text d n" t data "[]" L "[]"] by simp
  then show "snd (get_average_cpu_for_deployment L cfg w d n) = Inr (0, JArr [])"
    by (simp add: sampler_on_value)
next
  fix t data rs vs
  assume a: "query_prometheus cfg w (prom_query_text d n) = (t, Inr data)
          \<and> matching_series data = Some (JArr rs)
          \<and> list_all2 (\<lambda>r v. \<exists>m ts sv. r = series m ts sv \<and> float_of_str L sv = Some v) rs vs
          \<and> vs \<noteq> []"
  then have "collect_values L rs = ([], Inr vs)" by (simp add: collect_values_series)
  with a have "sampler_try_block L cfg w (prom_query_text d n)
                 = (t, Inr (float_div_len L (float_sum L vs) (length vs), JArr rs))"
    using try_block_series[of cfg w "prom_query_text d n" t data rs L vs] by simp
  then show "snd (get_average_cpu_for_deployment L cfg w d n)
            = Inr (float_div_len L (float_sum L vs) (length vs), JArr rs)"
    by (simp add: sampler_on_value)
qed

theorem sampler_spec_witness:
  "snd (query_prometheus cfg0 (world0\<lparr>requests_get := Inl boom\<rparr>) (prom_query_text ''myapp'' ''default''))
     = Inl boom
   \<and> snd (get_average_cpu_for_deployment lib0 cfg0 (world0\<lparr>requests_get := Inl boom\<rparr>)
            ''myapp'' ''default'') = Inr (0, JArr [])
   \<and> snd (get_average_cpu_for_deployment lib0 cfg0
            (world0\<lparr>requests_get := Inr (ok_response (prom_data []))\<rparr>) ''myapp'' ''default'')
       = Inr (0, JArr [])
   \<and> snd (get_average_cpu_for_deployment lib0 cfg0 world0 ''myapp'' ''default'')
       = Inr (Fin (5 / 8), JArr [series (JObj []) (JInt 1704110400) ''0.75'',
                                  series (JObj []) (JInt 1704110400) ''0.5''])"
proof -
  let ?q = "prom_query_text ''myapp'' ''default''"
  let ?rs = "[series (JObj []) (JInt 1704110400) ''0.75'', series (JObj []) (JInt 1704110400) ''0.5'']"
  let ?vs = "[Fin (3 / 4), Fin (1 / 2)]"
  have u: "PROM_URL cfg0 = Some ''http://prometheus:9090/''" by (simp add: cfg0_def)
  have h1: "snd (query_prometheus cfg0 (world0\<lparr>requests_get := Inl boom\<rparr>) ?q) = Inl boom"
    by (simp add: query_prometheus_def cfg0_def io_defs io_simps)
  have h2: "query_prometheus cfg0 (world0\<lparr>requests_get := Inr (ok_response (prom_data []))\<rparr>) ?q
              = ([RequestsGet ''http://prometheus:9090/api/v1/query'' ?q], Inr (prom_data []))
            \<and> matching_series (prom_data []) = Some (JArr [])"
    by (simp add: query_answer[OF u] matching_series_prom_data)
  have h3: "query_prometheus cfg0 world0 ?q
              = ([RequestsGet ''http://prometheus:9090/api/v1/query'' ?q], Inr (prom_data ?rs))
            \<and> matching_series (prom_data ?rs) = Some (JArr ?rs)
            \<and> list_all2 (\<lambda>r v. \<exists>m ts sv. r = series m ts sv \<and> float_of_str lib0 sv = Some v)
                 ?rs ?vs
            \<and> ?vs \<noteq> []"
    by (simp add: query_answer[OF u] world0_def matching_series_prom_data series_def lib0_parse)
  have r1: "snd (get_average_cpu_for_deployment lib0 cfg0 (world0\<lparr>requests_get := Inl boom\<rparr>)
            ''myapp'' ''default'') = Inr (0, JArr [])"
    using h1 sampler_spec [where L = lib0 and cfg = cfg0
        and w = "world0\<lparr>requests_get := Inl boom\<rparr>" and d = "''myapp''" and n = "''default''"]
    by blast
  have r2: "snd (get_average_cpu_for_deployment lib0 cfg0
            (world0\<lparr>requests_get := Inr (ok_response (prom_data []))\<rparr>) ''myapp'' ''default'')
       = Inr (0, JArr [])"
    using h2 sampler_spec [where L = lib0 and cfg = cfg0
        and w = "world0\<lparr>requests_get := Inr (ok_response (prom_data []))\<rparr>"
        and d = "''myapp''" and n = "''default''"]
    by blast
  have r3: "snd (get_average_cpu_for_deployment lib0 cfg0 world0 ''myapp'' ''default'')
       = Inr (float_div_len lib0 (float_sum lib0 ?vs) (length ?vs), JArr ?rs)"
    using h3 sampler_spec [where L = lib0 and cfg = cfg0 and w = world0
        and d = "''myapp''" and n = "''default''"]
    by blast
  have r3': "snd (get_average_cpu_for_deployment lib0 cfg0 world0 ''myapp'' ''default'')
       = Inr (Fin (5 / 8), JArr ?rs)"
    unfolding r3 lib0_mean_world0 ..
  show ?thesis using h1 r1 r2 r3' by blast
qed

text \<open>
  The claim C4 as stated (the average equals the exact arithmetic mean) fails: for the
  readings \<open>"0.1"\<close> and \<open>"0.2"\<close> the parsed values are the doubles nearest to 0.1 and 0.2,
  their float sum is \<open>0.30000000000000004\<close>, and the sampler returns
  \<open>0.15000000000000002\<close>, which is neither the mean of the two doubles nor \<open>0.15\<close>.
\<close>

theorem exact_mean_counterexample:
  "float_of_str lib0 ''0.1'' = Some (Fin (3602879701896397 / 2 ^ 55))
   \<and> float_of_str lib0 ''0.2'' = Some (Fin (3602879701896397 / 2 ^ 54))
   \<and> snd (get_average_cpu_for_deployment lib0 cfg0 world1 ''myapp'' ''default'')
       = Inr (Fin (1351079888211149 / 2 ^ 53),
              JArr [series (JObj []) (JInt 1704110400) ''0.1'',
                    series (JObj []) (JInt 1704110400) ''0.2''])
   \<and> (1351079888211149 / 2 ^ 53 :: real)
       \<noteq> (3602879701896397 / 2 ^ 55 + 3602879701896397 / 2 ^ 54) / 2
   \<and> (1351079888211149 / 2 ^ 53 :: real) \<noteq> (1 / 10 + 2 / 10) / 2"
proof -
  let ?rs = "[series (JObj []) (JInt 1704110400) ''0.1'', series (JObj []) (JInt 1704110400) ''0.2'']"
  let ?vs = "[Fin (3602879701896397 / 2 ^ 55), Fin (3602879701896397 / 2 ^ 54)]"
  have u: "PROM_URL cfg0 = Some ''http://prometheus:9090/''" by (simp add: cfg0_def)
  have g: "requests_get world1 = Inr (ok_response (prom_data ?rs))" by (simp add: world1_def)
  have l: "list_all2 (\<lambda>r v. \<exists>m ts sv. r = series m ts sv \<and> float_of_str lib0 sv = Some v) ?rs ?vs"
    by (simp add: series_def lib0_parse)
  have "snd (get_average_cpu_for_deployment lib0 cfg0 world1 ''myapp'' ''default'')
          = Inr (if ?vs \<noteq> [] then float_div_len lib0 (float_sum lib0 ?vs) (length ?vs) else 0,
                 JArr ?rs)"
    by (rule sampler_on_series[OF u g l])
  then have r: "snd (get_average_cpu_for_deployment lib0 cfg0 world1 ''myapp'' ''default'')
          = Inr (Fin (1351079888211149 / 2 ^ 53), JArr ?rs)"
    using lib0_mean_world1 by simp
  have n1: "(1351079888211149 / 2 ^ 53 :: real)
       \<noteq> (3602879701896397 / 2 ^ 55 + 3602879701896397 / 2 ^ 54) / 2" by simp
  have n2: "(1351079888211149 / 2 ^ 53 :: real) \<noteq> (1 / 10 + 2 / 10) / 2" by simp
  show ?thesis using lib0_parse(1,2) r n1 n2 by blast
qed

section \<open>Properties of the pull-request action\<close>



section \<open>Traces of the components and of one iteration\<close>

lemma fst_bind:
  "fst (bind m k) = fst m @ (case snd m of Inl e \<Rightarrow> [] | Inr x \<Rightarrow> fst (k x))"
  by (simp add: bind_eq split: sum.splits)

lemma snd_bind:
  "snd (bind m k) = (case snd m of Inl e \<Rightarrow> Inl e | Inr x \<Rightarrow> snd (k x))"
  by (simp add: bind_eq split: sum.splits)

lemma list_all_bind:
  "list_all P (fst m) \<Longrightarrow> (\<And>x. list_all P (fst (k x))) \<Longrightarrow> list_all P (fst (bind m k))"
  by (simp add: fst_bind split: sum.splits)

lemma list_all_catch:
  "list_all P (fst m) \<Longrightarrow> (\<And>e. list_all P (fst (h e))) \<Longrightarrow> list_all P (fst (catch m h))"
  by (simp add: catch_eq split: sum.splits)

lemma list_all_try_step:
  "list_all P (fst m) \<Longrightarrow> (\<And>x. list_all P (fst (k x))) \<Longrightarrow> list_all P (fst (try_step m f k))"
  by (cases m; cases "snd m") (auto simp: io_simps)

lemma fst_dict_get: "fst (dict_get d k v) = []"
  by (simp add: dict_get_def io_defs split: json.splits)

lemma fst_py_iter: "fst (py_iter v) = []"
  by (simp add: py_iter_def io_defs split: json.splits)

lemma fst_getitem_str: "fst (getitem_str v k) = []"
  by (simp add: getitem_str_def io_defs split: json.splits option.splits)

lemma fst_getitem_nat: "fst (getitem_nat v i) = []"
  by (simp add: getitem_nat_def io_defs split: json.splits)

lemma fst_py_float: "fst (py_float L v) = []"
  by (simp add: py_float_def io_defs split: json.splits option.splits)

lemma fst_collect_values: "fst (collect_values L rs) = []"
  by (induction rs)
     (simp_all add: fst_bind fst_getitem_str fst_getitem_nat fst_py_float ret_def split: sum.splits)

lemma query_prometheus_events: "list_all sampler_io (fst (query_prometheus cfg w q))"
  unfolding query_prometheus_def
  by (auto simp: fst_bind raise_for_status_def io_defs sampler_io_def split: option.splits sum.splits)

lemma sampler_events:
  "list_all sampler_io (fst (get_average_cpu_for_deployment L cfg w d n))"
  unfolding get_average_cpu_for_deployment_def Let_def sampler_try_block_def
  by (intro list_all_catch list_all_bind query_prometheus_events)
     (simp_all add: fst_dict_get fst_py_iter fst_collect_values io_defs sampler_io_def)

lemma sampler_io_plain: "list_all sampler_io t \<Longrightarrow> list_all plain_io t"
  by (induction t) (auto simp: sampler_io_def plain_io_def split: event.splits)

lemma no_post_sampler: "list_all sampler_io t \<Longrightarrow> \<not> list_ex is_post t"
  by (induction t) (auto simp: sampler_io_def is_post_def split: event.splits)

lemma post_slack_shape:
  "\<exists>t. post_slack L cfg w m = (Enter ''post_slack'' # t, Inr ()) \<and> list_all plain_io t"
  unfolding post_slack_def
  by (cases "requests_post w")
     (auto simp: io_defs io_simps plain_io_def split: option.splits)

lemma restart_shape:
  "\<exists>t r. restart_deployment_k8s cfg w d n = (Enter ''restart_deployment_k8s'' # t, Inr r)
         \<and> list_all executor_io t"
  unfolding restart_deployment_k8s_def Let_def
  by (cases "load_kube_config w"; cases "load_incluster_config w";
      cases "patch_namespaced_deployment w")
     (auto simp: io_defs io_simps executor_io_def)

lemma pr_shape:
  "\<exists>t. fst (create_github_pr_update_helm L cfg w tag) = Enter ''create_github_pr_update_helm'' # t
       \<and> list_all executor_io t"
proof -
  have "list_all executor_io (fst (
     if falsy (GITHUB_TOKEN cfg) \<or> falsy (GITHUB_REPO cfg) then ret (False, ''GitHub not configured'')
     else
       bind (call_unit (GetRepo (case GITHUB_REPO cfg of Some r \<Rightarrow> r | None \<Rightarrow> [])) (get_repo w)) (\<lambda>_.
       bind (call (GetBranch ''main'') (get_branch w)) (\<lambda>base_sha.
       let branch_name = branch_name_of L w tag in
       try_step (call_unit (CreateGitRef (''refs/heads/'' @ branch_name) base_sha) (create_git_ref w))
         (\<lambda>e. (False, ''Failed create branch: '' @ exn_str e)) (\<lambda>_.
       try_step (call (GetContents (HELM_VALUES_PATH cfg) branch_name) (get_contents w))
         (\<lambda>e. (False, ''Failed read helm values: '' @ exn_str e)) (\<lambda>cont.
       bind ([], decoded_content cont) (\<lambda>original.
       let new_content = helm_new_content original tag in
       try_step (call_unit (UpdateFile (path cont) (''agent: bump image tag to '' @ tag)
                              new_content (sha cont) branch_name) (update_file w))
         (\<lambda>e. (False, ''Failed update file: '' @ exn_str e)) (\<lambda>_.
       try_step (call (CreatePull (''agent: bump image tag to '' @ tag)
                         ''Automated update by Agentic AIOps'' branch_name ''main'') (create_pull w))
         (\<lambda>e. (False, ''Failed create PR: '' @ exn_str e)) (\<lambda>html_url.
       ret (True, ''PR created: '' @ html_url))))))))))"
    unfolding Let_def
    by (auto intro!: list_all_bind list_all_try_step simp: io_defs executor_io_def)
  then show ?thesis
    unfolding create_github_pr_update_helm_def
    by (simp add: emit_def io_simps)
qed

lemma invocations_append: "invocations f (a @ b) = invocations f a + invocations f b"
  by (simp add: invocations_def)

lemma invocations_Enter:
  "invocations f (Enter g # t) = (if f = g then 1 else 0) + invocations f t"
  by (auto simp: invocations_def)

lemma invocations_plain: "list_all plain_io t \<Longrightarrow> invocations f t = 0"
  by (induction t) (auto simp: invocations_def plain_io_def split: event.splits)

lemma invocations_executor: "list_all executor_io t \<Longrightarrow> invocations f t = 0"
  by (induction t) (auto simp: invocations_def executor_io_def split: event.splits)

lemma sleeps_append: "sleeps (a @ b) = sleeps a @ sleeps b"
  by (simp add: sleeps_def)

lemma sleeps_Enter: "sleeps (Enter g # t) = sleeps t"
  by (simp add: sleeps_def)

lemma sleeps_plain: "list_all plain_io t \<Longrightarrow> sleeps t = []"
  by (induction t) (auto simp: sleeps_def plain_io_def split: event.splits)

lemma sleeps_executor: "list_all executor_io t \<Longrightarrow> sleeps t = []"
  by (induction t) (auto simp: sleeps_def executor_io_def split: event.splits)

lemma remediation_plain: "list_all plain_io t \<Longrightarrow> \<not> list_ex remediation_event t"
  by (induction t) (auto simp: remediation_event_def plain_io_def split: event.splits)

lemma py_sleep_ok: "0 \<le> d \<Longrightarrow> py_sleep d = ([Sleep d], Inr ())"
  by (simp add: py_sleep_def emit_def)

lemma apply_changes_dry:
  "DRY_RUN cfg \<Longrightarrow>
   apply_changes L cfg w = ([Print ''DRY_RUN enabled -> not applying changes.''], Inr ())"
  by (simp add: apply_changes_def emit_def)

lemma apply_changes_auto:
  assumes "\<not> DRY_RUN cfg" and "AUTO_APPLY cfg"
  shows "\<exists>t. apply_changes L cfg w = (Enter ''restart_deployment_k8s'' # t, Inr ())
             \<and> list_all executor_io t"
proof -
  from restart_shape obtain t r where
    r: "restart_deployment_k8s cfg w (DEPLOYMENT_NAME cfg) (NAMESPACE cfg)
          = (Enter ''restart_deployment_k8s'' # t, Inr r)" "list_all executor_io t"
    by blast
  show ?thesis
    using assms r(2) unfolding apply_changes_def r(1)
    by (cases r) (simp add: io_simps log_action_def emit_def executor_io_def)
qed

lemma apply_changes_pr:
  assumes "\<not> DRY_RUN cfg" and "\<not> AUTO_APPLY cfg"
  shows "\<exists>t. fst (apply_changes L cfg w) = Enter ''create_github_pr_update_helm'' # t
             \<and> list_all executor_io t
             \<and> snd (apply_changes L cfg w)
                 = (case snd (create_github_pr_update_helm L cfg w (''agent-'' @ utcnow_stamp w)) of
                      Inl e \<Rightarrow> Inl e | Inr _ \<Rightarrow> Inr ())"
proof -
  let ?m = "create_github_pr_update_helm L cfg w (''agent-'' @ utcnow_stamp w)"
  from pr_shape obtain t where
    t: "fst ?m = Enter ''create_github_pr_update_helm'' # t" "list_all executor_io t"
    by blast
  show ?thesis
  proof (cases "snd ?m")
    case (Inl e)
    then have "?m = (Enter ''create_github_pr_update_helm'' # t, Inl e)"
      using t(1) by (metis prod.collapse)
    then show ?thesis
      using assms t(2) unfolding apply_changes_def Let_def by (simp add: io_simps)
  next
    case (Inr r)
    then have "?m = (Enter ''create_github_pr_update_helm'' # t, Inr r)"
      using t(1) by (metis prod.collapse)
    then show ?thesis
      using assms t(2) unfolding apply_changes_def Let_def
      by (cases r) (simp add: io_simps log_action_def emit_def executor_io_def)
  qed
qed

lemma sampler_result:
  "\<exists>t0 results. get_average_cpu_for_deployment L cfg w (DEPLOYMENT_NAME cfg) (NAMESPACE cfg)
                    = (t0, Inr (sampled_average L cfg w, results))
                 \<and> list_all sampler_io t0"
proof -
  let ?S = "get_average_cpu_for_deployment L cfg w (DEPLOYMENT_NAME cfg) (NAMESPACE cfg)"
  from sampler_total obtain avg res where r: "snd ?S = Inr (avg, res)" by blast
  then have "?S = (fst ?S, Inr (sampled_average L cfg w, res))"
    by (simp add: sampled_average_def prod_eq_iff)
  then show ?thesis using sampler_events[of L cfg w] by blast
qed

lemma loop_body_below:
  assumes "\<not> CPU_THRESHOLD cfg < sampled_average L cfg w"
  shows "\<exists>t. list_all sampler_io t
             \<and> loop_body L cfg p w = (t @ fst (py_sleep p), snd (py_sleep p))"
proof -
  from sampler_result obtain t0 res where
    S: "get_average_cpu_for_deployment L cfg w (DEPLOYMENT_NAME cfg) (NAMESPACE cfg)
          = (t0, Inr (sampled_average L cfg w, res))" and t0: "list_all sampler_io t0"
    by blast
  let ?line = "Print (''['' @ utcnow_iso w 0 @ ''] avg_cpu='' @ str_of_float L (sampled_average L cfg w)
                        @ '' (threshold='' @ str_of_float L (CPU_THRESHOLD cfg) @ '')'')"
  have "loop_body L cfg p w = ((t0 @ [?line]) @ fst (py_sleep p), snd (py_sleep p))"
    unfolding loop_body_def S using assms by (simp add: io_simps emit_def)
  moreover have "list_all sampler_io (t0 @ [?line])"
    using t0 by (simp add: sampler_io_def)
  ultimately show ?thesis by blast
qed

lemma bind_post_slack:
  "bind (post_slack L cfg w m) k
     = (Enter ''post_slack'' # tl (fst (post_slack L cfg w m)) @ fst (k ()), snd (k ()))"
proof -
  from post_slack_shape obtain t where "post_slack L cfg w m = (Enter ''post_slack'' # t, Inr ())"
    by blast
  then show ?thesis by (simp add: io_simps)
qed

lemma post_slack_tl_plain: "list_all plain_io (tl (fst (post_slack L cfg w m)))"
proof -
  from post_slack_shape obtain t where
    "post_slack L cfg w m = (Enter ''post_slack'' # t, Inr ())" "list_all plain_io t"
    by blast
  then show ?thesis by simp
qed

lemma loop_body_breach:
  assumes "CPU_THRESHOLD cfg < sampled_average L cfg w"
  shows "\<exists>t1 t2. list_all plain_io t1 \<and> list_all plain_io t2
           \<and> fst (loop_body L cfg p w)
               = t1 @ Enter ''post_slack'' # t2 @ fst (apply_changes L cfg w)
                 @ (case snd (apply_changes L cfg w) of
                      Inl e \<Rightarrow> [] | Inr _ \<Rightarrow> fst (py_sleep (p * 2)))
           \<and> snd (loop_body L cfg p w)
               = (case snd (apply_changes L cfg w) of
                    Inl e \<Rightarrow> Inl e | Inr _ \<Rightarrow> snd (py_sleep (p * 2)))"
proof -
  from sampler_result obtain t0 res where
    S: "get_average_cpu_for_deployment L cfg w (DEPLOYMENT_NAME cfg) (NAMESPACE cfg)
          = (t0, Inr (sampled_average L cfg w, res))" and t0': "list_all sampler_io t0"
    by blast
  have t0: "list_all plain_io t0" using t0' by (rule sampler_io_plain)
  let ?avg = "sampled_average L cfg w"
  let ?line = "Print (''['' @ utcnow_iso w 0 @ ''] avg_cpu='' @ str_of_float L ?avg
                        @ '' (threshold='' @ str_of_float L (CPU_THRESHOLD cfg) @ '')'')"
  define msg where "msg = '':rotating_light: *Agentic AIOps:* '' @ issue_text_of L cfg ?avg
                           @ newline @ ''Plan:'' @ newline
                           @ simple_llm_reasoning (issue_text_of L cfg ?avg)"
  define action where "action = JObj [(''timestamp'', JStr (utcnow_iso w 1)),
                           (''deployment'', JStr (DEPLOYMENT_NAME cfg)),
                           (''namespace'', JStr (NAMESPACE cfg)),
                           (''avg_cpu'', JFloat ?avg),
                           (''plan'', JStr (simple_llm_reasoning (issue_text_of L cfg ?avg))),
                           (''prom_results'', res)]"
  define t2 where "t2 = tl (fst (post_slack L cfg w msg))"
  have p2: "list_all plain_io t2" unfolding t2_def by (rule post_slack_tl_plain)
  let ?t1 = "t0 @ [?line, Print (''[AGENT ACTION] '' @ json_dumps L action)]"
  let ?rest = "bind (apply_changes L cfg w) (\<lambda>_. py_sleep (p * 2))"
  have l: "loop_body L cfg p w = (?t1 @ Enter ''post_slack'' # t2 @ fst ?rest, snd ?rest)"
    unfolding loop_body_def S Let_def using assms
    by (simp add: io_simps emit_def log_action_def bind_post_slack t2_def msg_def action_def)
  have "list_all plain_io ?t1"
    using t0 by (simp add: plain_io_def)
  moreover have "fst (loop_body L cfg p w)
               = ?t1 @ Enter ''post_slack'' # t2 @ fst (apply_changes L cfg w)
                 @ (case snd (apply_changes L cfg w) of
                      Inl e \<Rightarrow> [] | Inr _ \<Rightarrow> fst (py_sleep (p * 2)))"
    unfolding l by (simp add: fst_bind)
  moreover have "snd (loop_body L cfg p w)
               = (case snd (apply_changes L cfg w) of
                    Inl e \<Rightarrow> Inl e | Inr _ \<Rightarrow> snd (py_sleep (p * 2)))"
    unfolding l by (simp add: snd_bind)
  ultimately show ?thesis using p2 by blast
qed

section \<open>Properties of one iteration of the loop\<close>

lemma invocations_py_sleep: "invocations f (fst (py_sleep d)) = 0"
  by (simp add: py_sleep_def io_defs invocations_def)

lemma no_remediation_py_sleep: "\<not> list_ex remediation_event (fst (py_sleep d))"
  by (simp add: py_sleep_def io_defs remediation_event_def)

lemma no_post_py_sleep: "\<not> list_ex is_post (fst (py_sleep d))"
  by (simp add: py_sleep_def io_defs is_post_def)

lemma iteration_invocations:
  assumes "CPU_THRESHOLD cfg < sampled_average L cfg w"
  shows "invocations f (fst (loop_body L cfg p w))
           = (if f = ''post_slack'' then 1 else 0) + invocations f (fst (apply_changes L cfg w))"
proof -
  from loop_body_breach[OF assms] obtain t1 t2 where
    t: "list_all plain_io t1" "list_all plain_io t2"
       "fst (loop_body L cfg p w)
               = t1 @ Enter ''post_slack'' # t2 @ fst (apply_changes L cfg w)
                 @ (case snd (apply_changes L cfg w) of
                      Inl e \<Rightarrow> [] | Inr _ \<Rightarrow> fst (py_sleep (p * 2)))"
    by blast
  have "invocations f (case snd (apply_changes L cfg w) of
                      Inl e \<Rightarrow> [] | Inr _ \<Rightarrow> fst (py_sleep (p * 2))) = 0"
    by (cases "snd (apply_changes L cfg w)") (simp_all add: invocations_py_sleep, simp add: invocations_def)
  then show ?thesis
    unfolding t(3)
    by (simp add: invocations_append invocations_Enter invocations_plain[OF t(1)]
          invocations_plain[OF t(2)])
qed

lemma sampled_average_world0:
  assumes "PROM_URL cfg = Some ''http://prometheus:9090/''"
    and "requests_get w = requests_get world0"
  shows "sampled_average lib0 cfg w = Fin (5 / 8)"
proof -
  let ?rs = "[series (JObj []) (JInt 1704110400) ''0.75'', series (JObj []) (JInt 1704110400) ''0.5'']"
  let ?vs = "[Fin (3 / 4), Fin (1 / 2)]"
  have g: "requests_get w = Inr (ok_response (prom_data ?rs))"
    using assms(2) by (simp add: world0_def)
  have l: "list_all2 (\<lambda>r v. \<exists>m ts sv. r = series m ts sv \<and> float_of_str lib0 sv = Some v) ?rs ?vs"
    by (simp add: series_def lib0_parse)
  have "snd (get_average_cpu_for_deployment lib0 cfg w (DEPLOYMENT_NAME cfg) (NAMESPACE cfg))
          = Inr (if ?vs \<noteq> [] then float_div_len lib0 (float_sum lib0 ?vs) (length ?vs) else 0,
                 JArr ?rs)"
    by (rule sampler_on_series[OF assms(1) g l])
  then show ?thesis
    using lib0_mean_world0 by (simp add: sampled_average_def)
qed

lemma sleeps_py_sleep: "0 \<le> d \<Longrightarrow> sleeps (fst (py_sleep d)) = [d]"
  by (simp add: py_sleep_ok sleeps_def)

text \<open>
  C1. In every iteration in which the sampled average exceeds the threshold: with dry-run
  set, neither remediation action is entered (and no call to the cluster or to the source
  host is made), whatever auto-apply says; with dry-run off and auto-apply on, the restart
  is entered exactly once and the pull-request action not at all; with both off, the
  pull-request action is entered exactly once and the restart not at all. So at most one
  remediation action runs per iteration.
\<close>

theorem remediation_choice:
  assumes "CPU_THRESHOLD cfg < sampled_average L cfg w"
  shows "let t = fst (loop_body L cfg p w);
             r = invocations ''restart_deployment_k8s'' t;
             c = invocations ''create_github_pr_update_helm'' t
         in (DRY_RUN cfg \<longrightarrow> r = 0 \<and> c = 0 \<and> \<not> list_ex remediation_event t)
          \<and> (\<not> DRY_RUN cfg \<and> AUTO_APPLY cfg \<longrightarrow> r = 1 \<and> c = 0)
          \<and> (\<not> DRY_RUN cfg \<and> \<not> AUTO_APPLY cfg \<longrightarrow> r = 0 \<and> c = 1)
          \<and> r + c \<le> 1"
proof -
  let ?t = "fst (loop_body L cfg p w)"
  let ?r = "invocations ''restart_deployment_k8s'' ?t"
  let ?c = "invocations ''create_github_pr_update_helm'' ?t"
  have r: "?r = invocations ''restart_deployment_k8s'' (fst (apply_changes L cfg w))"
    and c: "?c = invocations ''create_github_pr_update_helm'' (fst (apply_changes L cfg w))"
    by (simp_all add: iteration_invocations[OF assms])
  have dry: "?r = 0 \<and> ?c = 0 \<and> \<not> list_ex remediation_event ?t" if d: "DRY_RUN cfg"
  proof -
    from loop_body_breach[OF assms] obtain t1 t2 where
      t: "list_all plain_io t1" "list_all plain_io t2"
         "fst (loop_body L cfg p w)
               = t1 @ Enter ''post_slack'' # t2 @ fst (apply_changes L cfg w)
                 @ (case snd (apply_changes L cfg w) of
                      Inl e \<Rightarrow> [] | Inr _ \<Rightarrow> fst (py_sleep (p * 2)))"
      by blast
    have "\<not> list_ex remediation_event ?t"
      unfolding t(3) apply_changes_dry[OF d]
      using remediation_plain[OF t(1)] remediation_plain[OF t(2)] no_remediation_py_sleep[of "p * 2"]
      by (simp add: remediation_event_def)
    then show ?thesis
      unfolding r c apply_changes_dry[OF d] by (simp add: invocations_def)
  qed
  have auto: "?r = 1 \<and> ?c = 0" if "\<not> DRY_RUN cfg" "AUTO_APPLY cfg"
  proof -
    from apply_changes_auto[OF that] obtain t where
      "apply_changes L cfg w = (Enter ''restart_deployment_k8s'' # t, Inr ())" "list_all executor_io t"
      by blast
    then show ?thesis
      unfolding r c by (simp add: invocations_Enter invocations_executor)
  qed
  have pr: "?r = 0 \<and> ?c = 1" if "\<not> DRY_RUN cfg" "\<not> AUTO_APPLY cfg"
  proof -
    from apply_changes_pr[OF that] obtain t where
      "fst (apply_changes L cfg w) = Enter ''create_github_pr_update_helm'' # t"
      "list_all executor_io t"
      by blast
    then show ?thesis
      unfolding r c by (simp add: invocations_Enter invocations_executor)
  qed
  show ?thesis
    unfolding Let_def using dry auto pr by (cases "DRY_RUN cfg"; cases "AUTO_APPLY cfg") auto
qed

text \<open>
  C3. The iteration handles a breach exactly when the sampled average is strictly greater
  than the threshold: then the notification sink is entered once; otherwise (in particular
  when average and threshold are equal) the notification sink is not entered, no POST is
  made, and no remediation action is entered or performs a call.
\<close>

theorem breach_iff:
  "let avg = sampled_average L cfg w; t = fst (loop_body L cfg p w)
   in (CPU_THRESHOLD cfg < avg \<longrightarrow> invocations ''post_slack'' t = 1)
    \<and> (\<not> CPU_THRESHOLD cfg < avg \<longrightarrow>
         invocations ''post_slack'' t = 0 \<and> \<not> list_ex is_post t
         \<and> \<not> list_ex remediation_event t)
    \<and> (avg = CPU_THRESHOLD cfg \<longrightarrow>
         invocations ''post_slack'' t = 0 \<and> \<not> list_ex is_post t
         \<and> \<not> list_ex remediation_event t)"
proof -
  let ?avg = "sampled_average L cfg w"
  let ?t = "fst (loop_body L cfg p w)"
  have up: "invocations ''post_slack'' ?t = 1" if b: "CPU_THRESHOLD cfg < ?avg"
  proof -
    have "invocations ''post_slack'' (fst (apply_changes L cfg w)) = 0"
    proof (cases "DRY_RUN cfg")
      case True
      then show ?thesis by (simp add: apply_changes_dry invocations_def)
    next
      case d: False
      show ?thesis
      proof (cases "AUTO_APPLY cfg")
        case True
        from apply_changes_auto[OF d True] obtain t where
          "apply_changes L cfg w = (Enter ''restart_deployment_k8s'' # t, Inr ())"
          "list_all executor_io t" by blast
        then show ?thesis by (simp add: invocations_Enter invocations_executor)
      next
        case False
        from apply_changes_pr[OF d False] obtain t where
          "fst (apply_changes L cfg w) = Enter ''create_github_pr_update_helm'' # t"
          "list_all executor_io t" by blast
        then show ?thesis by (simp add: invocations_Enter invocations_executor)
      qed
    qed
    then show ?thesis by (simp add: iteration_invocations[OF b])
  qed
  have down: "invocations ''post_slack'' ?t = 0 \<and> \<not> list_ex is_post ?t
         \<and> \<not> list_ex remediation_event ?t" if nb: "\<not> CPU_THRESHOLD cfg < ?avg"
  proof -
    from loop_body_below[OF nb] obtain t where
      t: "list_all sampler_io t" "loop_body L cfg p w = (t @ fst (py_sleep p), snd (py_sleep p))"
      by blast
    have pl: "list_all plain_io t" using t(1) by (rule sampler_io_plain)
    show ?thesis
      unfolding t(2)
      using invocations_plain[OF pl] no_post_sampler[OF t(1)] remediation_plain[OF pl]
        invocations_py_sleep[of "''post_slack''" p] no_remediation_py_sleep[of p]
        no_post_py_sleep[of p]
      by (simp add: invocations_append)
  qed
  show ?thesis unfolding Let_def using up down not_less_self by auto
qed

theorem remediation_choice_witness:
  "CPU_THRESHOLD cfg0 < sampled_average lib0 cfg0 world0
   \<and> DRY_RUN cfg0
   \<and> invocations ''restart_deployment_k8s'' (fst (loop_body lib0 cfg0 30 world0)) = 0
   \<and> invocations ''create_github_pr_update_helm'' (fst (loop_body lib0 cfg0 30 world0)) = 0
   \<and> invocations ''restart_deployment_k8s''
        (fst (loop_body lib0 (cfg0\<lparr>DRY_RUN := False, AUTO_APPLY := True\<rparr>) 30 world0)) = 1
   \<and> invocations ''create_github_pr_update_helm''
        (fst (loop_body lib0 (cfg0\<lparr>DRY_RUN := False, AUTO_APPLY := True\<rparr>) 30 world0)) = 0
   \<and> invocations ''restart_deployment_k8s''
        (fst (loop_body lib0 (cfg0\<lparr>DRY_RUN := False\<rparr>) 30 world0)) = 0
   \<and> invocations ''create_github_pr_update_helm''
        (fst (loop_body lib0 (cfg0\<lparr>DRY_RUN := False\<rparr>) 30 world0)) = 1"
proof -
  have a: "sampled_average lib0 cfg0 world0 = Fin (5 / 8)"
    by (rule sampled_average_world0) (simp_all add: cfg0_def)
  have b: "sampled_average lib0 (cfg0\<lparr>DRY_RUN := False, AUTO_APPLY := True\<rparr>) world0 = Fin (5 / 8)"
    by (rule sampled_average_world0) (simp_all add: cfg0_def)
  have c: "sampled_average lib0 (cfg0\<lparr>DRY_RUN := False\<rparr>) world0 = Fin (5 / 8)"
    by (rule sampled_average_world0) (simp_all add: cfg0_def)
  have h1: "CPU_THRESHOLD cfg0 < sampled_average lib0 cfg0 world0"
    unfolding a by (simp add: cfg0_def)
  have h2: "CPU_THRESHOLD (cfg0\<lparr>DRY_RUN := False, AUTO_APPLY := True\<rparr>)
              < sampled_average lib0 (cfg0\<lparr>DRY_RUN := False, AUTO_APPLY := True\<rparr>) world0"
    unfolding b by (simp add: cfg0_def)
  have h3: "CPU_THRESHOLD (cfg0\<lparr>DRY_RUN := False\<rparr>)
              < sampled_average lib0 (cfg0\<lparr>DRY_RUN := False\<rparr>) world0"
    unfolding c by (simp add: cfg0_def)
  have d: "DRY_RUN cfg0" "\<not> AUTO_APPLY cfg0" by (simp_all add: cfg0_def)
  show ?thesis
    using h1 d remediation_choice [OF h1, of 30] remediation_choice [OF h2, of 30]
      remediation_choice [OF h3, of 30]
    by (simp add: Let_def)
qed

theorem breach_iff_witness:
  "CPU_THRESHOLD cfg0 < sampled_average lib0 cfg0 world0
   \<and> invocations ''post_slack'' (fst (loop_body lib0 cfg0 30 world0)) = 1
   \<and> sampled_average lib0 (cfg0\<lparr>CPU_THRESHOLD := Fin (5 / 8)\<rparr>) world0
       = CPU_THRESHOLD (cfg0\<lparr>CPU_THRESHOLD := Fin (5 / 8)\<rparr>)
   \<and> invocations ''post_slack'' (fst (loop_body lib0 (cfg0\<lparr>CPU_THRESHOLD := Fin (5 / 8)\<rparr>) 30 world0)) = 0
   \<and> \<not> list_ex is_post (fst (loop_body lib0 (cfg0\<lparr>CPU_THRESHOLD := Fin (5 / 8)\<rparr>) 30 world0))
   \<and> \<not> list_ex remediation_event (fst (loop_body lib0 (cfg0\<lparr>CPU_THRESHOLD := Fin (5 / 8)\<rparr>) 30 world0))"
proof -
  have a: "sampled_average lib0 cfg0 world0 = Fin (5 / 8)"
    by (rule sampled_average_world0) (simp_all add: cfg0_def)
  have b: "sampled_average lib0 (cfg0\<lparr>CPU_THRESHOLD := Fin (5 / 8)\<rparr>) world0 = Fin (5 / 8)"
    by (rule sampled_average_world0) (simp_all add: cfg0_def)
  have h1: "CPU_THRESHOLD cfg0 < sampled_average lib0 cfg0 world0"
    unfolding a by (simp add: cfg0_def)
  have h2: "sampled_average lib0 (cfg0\<lparr>CPU_THRESHOLD := Fin (5 / 8)\<rparr>) world0
              = CPU_THRESHOLD (cfg0\<lparr>CPU_THRESHOLD := Fin (5 / 8)\<rparr>)"
    unfolding b by simp
  show ?thesis
    using h1 h2 breach_iff [where cfg = cfg0 and L = lib0 and w = world0 and p = 30]
      breach_iff [where cfg = "cfg0\<lparr>CPU_THRESHOLD := Fin (5 / 8)\<rparr>" and L = lib0 and w = world0
        and p = 30]
    by (simp add: Let_def)
qed

text \<open>
  The sleep at the end of an iteration, with a poll interval \<open>p \<ge> 0\<close>: an iteration
  without breach ends normally with one sleep of \<open>p\<close>; an iteration with breach ends
  normally with one sleep of \<open>2 p\<close> when the remediation is skipped (dry-run), when the
  restart was attempted (whether it succeeded or failed), and when the pull-request action
  returned its flag (\<open>True\<close> or \<open>False\<close>). The iteration in which the pull-request action
  itself raises does not reach its sleep.
\<close>

theorem cooldown:
  assumes "0 \<le> p"
  shows "let avg = sampled_average L cfg w;
             out = loop_body L cfg p w;
             pr = create_github_pr_update_helm L cfg w (''agent-'' @ utcnow_stamp w)
         in (\<not> CPU_THRESHOLD cfg < avg \<longrightarrow> snd out = Inr () \<and> sleeps (fst out) = [p])
          \<and> (CPU_THRESHOLD cfg < avg \<and> DRY_RUN cfg \<longrightarrow>
               snd out = Inr () \<and> sleeps (fst out) = [p * 2])
          \<and> (CPU_THRESHOLD cfg < avg \<and> \<not> DRY_RUN cfg \<and> AUTO_APPLY cfg \<longrightarrow>
               snd out = Inr () \<and> sleeps (fst out) = [p * 2])
          \<and> (CPU_THRESHOLD cfg < avg \<and> \<not> DRY_RUN cfg \<and> \<not> AUTO_APPLY cfg \<longrightarrow>
               (\<forall>ok msg. snd pr = Inr (ok, msg) \<longrightarrow>
                  snd out = Inr () \<and> sleeps (fst out) = [p * 2])
               \<and> (\<forall>e. snd pr = Inl e \<longrightarrow> snd out = Inl e \<and> sleeps (fst out) = []))"
proof -
  let ?avg = "sampled_average L cfg w"
  let ?out = "loop_body L cfg p w"
  let ?pr = "create_github_pr_update_helm L cfg w (''agent-'' @ utcnow_stamp w)"
  have p2: "0 \<le> p * 2" using assms by simp
  have below: "snd ?out = Inr () \<and> sleeps (fst ?out) = [p]" if nb: "\<not> CPU_THRESHOLD cfg < ?avg"
  proof -
    from loop_body_below[OF nb] obtain t where
      t: "list_all sampler_io t" "loop_body L cfg p w = (t @ fst (py_sleep p), snd (py_sleep p))"
      by blast
    show ?thesis
      unfolding t(2) using sleeps_plain[OF sampler_io_plain[OF t(1)]] assms
      by (simp add: sleeps_append py_sleep_ok sleeps_def)
  qed
  have breach: "snd ?out = (case snd (apply_changes L cfg w) of
                              Inl e \<Rightarrow> Inl e | Inr _ \<Rightarrow> Inr ())
              \<and> sleeps (fst ?out) = sleeps (fst (apply_changes L cfg w))
                   @ (case snd (apply_changes L cfg w) of Inl e \<Rightarrow> [] | Inr _ \<Rightarrow> [p * 2])"
    if b: "CPU_THRESHOLD cfg < ?avg"
  proof -
    from loop_body_breach[OF b] obtain t1 t2 where
      t: "list_all plain_io t1" "list_all plain_io t2"
         "fst (loop_body L cfg p w)
               = t1 @ Enter ''post_slack'' # t2 @ fst (apply_changes L cfg w)
                 @ (case snd (apply_changes L cfg w) of
                      Inl e \<Rightarrow> [] | Inr _ \<Rightarrow> fst (py_sleep (p * 2)))"
         "snd (loop_body L cfg p w)
               = (case snd (apply_changes L cfg w) of
                    Inl e \<Rightarrow> Inl e | Inr _ \<Rightarrow> snd (py_sleep (p * 2)))"
      by blast
    show ?thesis
      unfolding t(3) t(4)
      using sleeps_plain[OF t(1)] sleeps_plain[OF t(2)]
      by (cases "snd (apply_changes L cfg w)")
         (simp_all add: sleeps_append sleeps_Enter py_sleep_ok[OF p2], simp_all add: sleeps_def)
  qed
  have dry: "snd ?out = Inr () \<and> sleeps (fst ?out) = [p * 2]"
    if b: "CPU_THRESHOLD cfg < ?avg" and d: "DRY_RUN cfg"
    using breach[OF b] unfolding apply_changes_dry[OF d] by (simp add: sleeps_def)
  have auto: "snd ?out = Inr () \<and> sleeps (fst ?out) = [p * 2]"
    if b: "CPU_THRESHOLD cfg < ?avg" and d: "\<not> DRY_RUN cfg" "AUTO_APPLY cfg"
  proof -
    from apply_changes_auto[OF d] obtain t where
      t: "apply_changes L cfg w = (Enter ''restart_deployment_k8s'' # t, Inr ())"
         "list_all executor_io t" by blast
    show ?thesis
      using breach[OF b] unfolding t(1) by (simp add: sleeps_Enter sleeps_executor[OF t(2)])
  qed
  have pr: "(\<forall>ok msg. snd ?pr = Inr (ok, msg) \<longrightarrow> snd ?out = Inr () \<and> sleeps (fst ?out) = [p * 2])
          \<and> (\<forall>e. snd ?pr = Inl e \<longrightarrow> snd ?out = Inl e \<and> sleeps (fst ?out) = [])"
    if b: "CPU_THRESHOLD cfg < ?avg" and d: "\<not> DRY_RUN cfg" "\<not> AUTO_APPLY cfg"
  proof -
    from apply_changes_pr[OF d] obtain t where
      t: "fst (apply_changes L cfg w) = Enter ''create_github_pr_update_helm'' # t"
         "list_all executor_io t"
         "snd (apply_changes L cfg w) = (case snd ?pr of Inl e \<Rightarrow> Inl e | Inr _ \<Rightarrow> Inr ())"
      by blast
    show ?thesis
      using breach[OF b] unfolding t(1) t(3)
      by (auto simp: sleeps_Enter sleeps_executor[OF t(2)])
  qed
  show ?thesis
    unfolding Let_def using below dry auto pr by blast
qed

theorem cooldown_witness:
  "(0::int) \<le> 30
   \<and> \<not> CPU_THRESHOLD (cfg0\<lparr>CPU_THRESHOLD := Fin (5 / 8)\<rparr>)
         < sampled_average lib0 (cfg0\<lparr>CPU_THRESHOLD := Fin (5 / 8)\<rparr>) world0
   \<and> sleeps (fst (loop_body lib0 (cfg0\<lparr>CPU_THRESHOLD := Fin (5 / 8)\<rparr>) 30 world0)) = [30]
   \<and> CPU_THRESHOLD cfg0 < sampled_average lib0 cfg0 world0 \<and> DRY_RUN cfg0
   \<and> snd (loop_body lib0 cfg0 30 world0) = Inr ()
   \<and> sleeps (fst (loop_body lib0 cfg0 30 world0)) = [60]
   \<and> sleeps (fst (loop_body lib0 (cfg0\<lparr>DRY_RUN := False, AUTO_APPLY := True\<rparr>) 30
                     (world0\<lparr>patch_namespaced_deployment := Some boom\<rparr>))) = [60]
   \<and> snd (create_github_pr_update_helm lib0 (cfg0\<lparr>DRY_RUN := False\<rparr>)
            (world0\<lparr>create_git_ref := Some boom\<rparr>)
            (''agent-'' @ utcnow_stamp (world0\<lparr>create_git_ref := Some boom\<rparr>)))
       = Inr (False, ''Failed create branch: boom'')
   \<and> sleeps (fst (loop_body lib0 (cfg0\<lparr>DRY_RUN := False\<rparr>) 30
                     (world0\<lparr>create_git_ref := Some boom\<rparr>))) = [60]"
proof -
  let ?c1 = "cfg0\<lparr>CPU_THRESHOLD := Fin (5 / 8)\<rparr>"
  let ?c2 = "cfg0\<lparr>DRY_RUN := False, AUTO_APPLY := True\<rparr>"
  let ?c3 = "cfg0\<lparr>DRY_RUN := False\<rparr>"
  let ?w2 = "world0\<lparr>patch_namespaced_deployment := Some boom\<rparr>"
  let ?w3 = "world0\<lparr>create_git_ref := Some boom\<rparr>"
  have p: "(0::int) \<le> 30" by simp
  have a1: "sampled_average lib0 ?c1 world0 = Fin (5 / 8)"
    by (rule sampled_average_world0) (simp_all add: cfg0_def)
  have a0: "sampled_average lib0 cfg0 world0 = Fin (5 / 8)"
    by (rule sampled_average_world0) (simp_all add: cfg0_def)
  have a2: "sampled_average lib0 ?c2 ?w2 = Fin (5 / 8)"
    by (rule sampled_average_world0) (simp_all add: cfg0_def)
  have a3: "sampled_average lib0 ?c3 ?w3 = Fin (5 / 8)"
    by (rule sampled_average_world0) (simp_all add: cfg0_def)
  have h1: "\<not> CPU_THRESHOLD ?c1 < sampled_average lib0 ?c1 world0"
    unfolding a1 by simp
  have h0: "CPU_THRESHOLD cfg0 < sampled_average lib0 cfg0 world0 \<and> DRY_RUN cfg0"
    unfolding a0 by (simp add: cfg0_def)
  have h2: "CPU_THRESHOLD ?c2 < sampled_average lib0 ?c2 ?w2 \<and> \<not> DRY_RUN ?c2 \<and> AUTO_APPLY ?c2"
    unfolding a2 by (simp add: cfg0_def)
  have h3: "CPU_THRESHOLD ?c3 < sampled_average lib0 ?c3 ?w3 \<and> \<not> DRY_RUN ?c3 \<and> \<not> AUTO_APPLY ?c3"
    unfolding a3 by (simp add: cfg0_def)
  have pr: "snd (create_github_pr_update_helm lib0 ?c3 ?w3 (''agent-'' @ utcnow_stamp ?w3))
              = Inr (False, ''Failed create branch: boom'')"
    by (simp add: create_github_pr_update_helm_def cfg0_def world0_def falsy_def boom_def
          io_defs io_simps Let_def)
  have r1: "sleeps (fst (loop_body lib0 ?c1 30 world0)) = [30]"
    using h1 cooldown [OF p, where cfg = "?c1" and L = lib0 and w = "world0"] by (simp add: Let_def)
  have r0: "snd (loop_body lib0 cfg0 30 world0) = Inr ()
            \<and> sleeps (fst (loop_body lib0 cfg0 30 world0)) = [60]"
    using h0 cooldown [OF p, where cfg = "cfg0" and L = lib0 and w = "world0"] by (simp add: Let_def)
  have r2: "sleeps (fst (loop_body lib0 ?c2 30 ?w2)) = [60]"
    using h2 cooldown [OF p, where cfg = "?c2" and L = lib0 and w = "?w2"] by (simp add: Let_def)
  have "sleeps (fst (loop_body lib0 ?c3 30 ?w3)) = [30 * 2]"
    using h3 pr cooldown [OF p, where cfg = "?c3" and L = lib0 and w = "?w3"]
    unfolding Let_def by blast
  then have r3: "sleeps (fst (loop_body lib0 ?c3 30 ?w3)) = [60]" by simp
  show ?thesis using p h1 h0 pr r1 r0 r2 r3 by blast
qed

text \<open>
  C8, where the code departs from it. A breach with dry-run and auto-apply off, in which
  \<open>g.get_repo\<close> raises (line 122, outside every \<open>try\<close>, unlike the four sub-steps that
  follow it): the exception is caught neither in \<open>create_github_pr_update_helm\<close> nor in
  \<open>main_loop\<close>, so the iteration ends with it, the sleep of line 190 is not reached and
  no further iteration runs.
\<close>

theorem cooldown_lost_when_action_raises:
  "CPU_THRESHOLD (cfg0\<lparr>DRY_RUN := False\<rparr>)
     < sampled_average lib0 (cfg0\<lparr>DRY_RUN := False\<rparr>) (world0\<lparr>get_repo := Some boom\<rparr>)
   \<and> \<not> DRY_RUN (cfg0\<lparr>DRY_RUN := False\<rparr>) \<and> \<not> AUTO_APPLY (cfg0\<lparr>DRY_RUN := False\<rparr>)
   \<and> create_github_pr_update_helm lib0 (cfg0\<lparr>DRY_RUN := False\<rparr>)
         (world0\<lparr>get_repo := Some boom\<rparr>) ''agent-20240101120000''
       = ([Enter ''create_github_pr_update_helm'', GetRepo ''owner/repo''], Inl boom)
   \<and> snd (loop_body lib0 (cfg0\<lparr>DRY_RUN := False\<rparr>) 30 (world0\<lparr>get_repo := Some boom\<rparr>))
       = Inl boom
   \<and> sleeps (fst (loop_body lib0 (cfg0\<lparr>DRY_RUN := False\<rparr>) 30
                     (world0\<lparr>get_repo := Some boom\<rparr>))) = []
   \<and> snd (main_loop lib0 (cfg0\<lparr>DRY_RUN := False\<rparr>) 30
            [world0\<lparr>get_repo := Some boom\<rparr>, world0]) = Inl boom
   \<and> sleeps (fst (main_loop lib0 (cfg0\<lparr>DRY_RUN := False\<rparr>) 30
                     [world0\<lparr>get_repo := Some boom\<rparr>, world0])) = []"
proof -
  let ?c = "cfg0\<lparr>DRY_RUN := False\<rparr>"
  let ?w = "world0\<lparr>get_repo := Some boom\<rparr>"
  have p: "(0::int) \<le> 30" by simp
  have a: "sampled_average lib0 ?c ?w = Fin (5 / 8)"
    by (rule sampled_average_world0) (simp_all add: cfg0_def)
  have h: "CPU_THRESHOLD ?c < sampled_average lib0 ?c ?w \<and> \<not> DRY_RUN ?c \<and> \<not> AUTO_APPLY ?c"
    unfolding a by (simp add: cfg0_def)
  have s: "utcnow_stamp ?w = ''20240101120000''" by (simp add: world0_def)
  have pr: "create_github_pr_update_helm lib0 ?c ?w ''agent-20240101120000''
              = ([Enter ''create_github_pr_update_helm'', GetRepo ''owner/repo''], Inl boom)"
    by (simp add: create_github_pr_update_helm_def cfg0_def falsy_def io_defs io_simps)
  then have pr': "snd (create_github_pr_update_helm lib0 ?c ?w (''agent-'' @ utcnow_stamp ?w))
                    = Inl boom"
    by (simp add: s)
  have l: "snd (loop_body lib0 ?c 30 ?w) = Inl boom \<and> sleeps (fst (loop_body lib0 ?c 30 ?w)) = []"
    using h pr' cooldown [OF p, where cfg = ?c and L = lib0 and w = ?w]
    unfolding Let_def by blast
  have i: "iterations lib0 ?c 30 [?w, world0] = (fst (loop_body lib0 ?c 30 ?w), Inl boom)"
    using l by (simp add: bind_eq)
  have m: "snd (main_loop lib0 ?c 30 [?w, world0]) = Inl boom
           \<and> sleeps (fst (main_loop lib0 ?c 30 [?w, world0])) = []"
    using l unfolding main_loop_def i by (simp add: emit_def io_simps sleeps_def)
  show ?thesis using h pr l m by blast
qed

section \<open>Properties of the configuration\<close>

lemma query_prometheus_unset:
  "falsy (PROM_URL cfg) \<Longrightarrow>
   query_prometheus cfg w q = ([], Inl (PyExn ''RuntimeError'' ''PROMETHEUS_URL not configured''))"
  by (auto simp: query_prometheus_def falsy_def raise_def split: option.splits)

lemma sampler_unset:
  assumes "falsy (PROM_URL cfg)"
  shows "get_average_cpu_for_deployment L cfg w d n
           = ([Print ''Prom query error: PROMETHEUS_URL not configured''], Inr (0, JArr []))"
proof -
  have "sampler_try_block L cfg w (prom_query_text d n)
          = ([], Inl (PyExn ''RuntimeError'' ''PROMETHEUS_URL not configured''))"
    using try_block_query_error[of cfg w "prom_query_text d n" _ L]
      query_prometheus_unset[OF assms, of w "prom_query_text d n"] by simp
  then show ?thesis
    using sampler_on_error[of L cfg w d n "PyExn ''RuntimeError'' ''PROMETHEUS_URL not configured''"]
    by simp
qed

lemma loop_body_unset:
  assumes "falsy (PROM_URL cfg)" and "0 \<le> CPU_THRESHOLD cfg" and "0 \<le> p"
  shows "loop_body L cfg p w
           = ([Print ''Prom query error: PROMETHEUS_URL not configured'',
               Print (''['' @ utcnow_iso w 0 @ ''] avg_cpu='' @ str_of_float L 0
                      @ '' (threshold='' @ str_of_float L (CPU_THRESHOLD cfg) @ '')''),
               Sleep p], Inr ())"
  unfolding loop_body_def sampler_unset[OF assms(1)]
  using assms(3) not_less_zero[OF assms(2)] by (simp add: io_simps emit_def py_sleep_ok)

lemma iterations_unset:
  assumes "falsy (PROM_URL cfg)" and "0 \<le> CPU_THRESHOLD cfg" and "0 \<le> p"
  shows "snd (iterations L cfg p ws) = Inr ()
         \<and> sleeps (fst (iterations L cfg p ws)) = replicate (length ws) p
         \<and> \<not> list_ex is_network_request (fst (iterations L cfg p ws))"
proof (induction ws)
  case Nil
  then show ?case by (simp add: ret_def sleeps_def)
next
  case (Cons w ws)
  then show ?case
    by (simp add: loop_body_unset[OF assms] io_simps sleeps_def is_network_request_def)
qed

text \<open>
  C2, as the code has it. Nothing checks the metric source address when the process starts:
  the module-level code can only fail on an unparsable \<open>CPU_THRESHOLD\<close>, and it copies
  \<open>PROMETHEUS_URL\<close> as it is. With the address unset or empty, every call of
  \<open>query_prometheus\<close> raises \<open>RuntimeError("PROMETHEUS_URL not configured")\<close> before any
  request; the sampler catches it, prints it and returns the average 0 with an empty list.
  So, with a threshold and a poll interval that are not negative, every iteration ends with
  its sleep of the poll interval, no request is ever made, and the loop goes on.
\<close>

theorem prometheus_url_missing:
  "(\<forall>e. module_config L env = Inl e \<longrightarrow> exn_class e = ''ValueError'')
   \<and> (\<forall>cfg. module_config L env = Inr cfg \<longrightarrow> PROM_URL cfg = env ''PROMETHEUS_URL'')
   \<and> (falsy (PROM_URL cfg) \<longrightarrow>
        query_prometheus cfg w q
          = ([], Inl (PyExn ''RuntimeError'' ''PROMETHEUS_URL not configured''))
        \<and> get_average_cpu_for_deployment L cfg w d n
          = ([Print ''Prom query error: PROMETHEUS_URL not configured''], Inr (0, JArr []))
        \<and> (0 \<le> CPU_THRESHOLD cfg \<and> 0 \<le> p \<longrightarrow>
             snd (main_loop L cfg p ws) = Inr ()
             \<and> sleeps (fst (main_loop L cfg p ws)) = replicate (length ws) p
             \<and> \<not> list_ex is_network_request (fst (main_loop L cfg p ws))))"
proof (intro conjI allI impI)
  fix e assume "module_config L env = Inl e"
  then show "exn_class e = ''ValueError''"
    by (auto simp: module_config_def split: option.splits)
next
  fix c assume "module_config L env = Inr c"
  then show "PROM_URL c = env ''PROMETHEUS_URL''"
    by (auto simp: module_config_def getenv_def split: option.splits)
next
  assume f: "falsy (PROM_URL cfg)"
  show "query_prometheus cfg w q
          = ([], Inl (PyExn ''RuntimeError'' ''PROMETHEUS_URL not configured''))"
    by (rule query_prometheus_unset[OF f])
  show "get_average_cpu_for_deployment L cfg w d n
          = ([Print ''Prom query error: PROMETHEUS_URL not configured''], Inr (0, JArr []))"
    by (rule sampler_unset[OF f])
  assume a: "0 \<le> CPU_THRESHOLD cfg \<and> 0 \<le> p"
  note i = iterations_unset[OF f, of p L ws]
  show "snd (main_loop L cfg p ws) = Inr ()"
    using i a by (simp add: main_loop_def emit_def io_simps)
  show "sleeps (fst (main_loop L cfg p ws)) = replicate (length ws) p"
    using i a by (simp add: main_loop_def emit_def io_simps sleeps_def)
  show "\<not> list_ex is_network_request (fst (main_loop L cfg p ws))"
    using i a by (simp add: main_loop_def emit_def io_simps is_network_request_def)
qed

text \<open>
  The claim C2 as stated (a fatal error at startup, no iteration with the address absent)
  fails: without \<open>PROMETHEUS_URL\<close> the process starts and runs its iterations.
\<close>

theorem startup_check_counterexample:
  "getenv env0 ''PROMETHEUS_URL'' = None
   \<and> agent lib0 env0 [world0, world0]
       = ([Print ''Starting Agentic AIOps agent (DRY_RUN=True, AUTO_APPLY=False)'',
           Print ''Prom query error: PROMETHEUS_URL not configured'',
           Print ''[2024-01-01T12:00:00] avg_cpu=<float> (threshold=<float>)'',
           Sleep 30,
           Print ''Prom query error: PROMETHEUS_URL not configured'',
           Print ''[2024-01-01T12:00:00] avg_cpu=<float> (threshold=<float>)'',
           Sleep 30],
          Inr ())"
proof -
  have g: "getenv env0 ''PROMETHEUS_URL'' = None"
    by (simp add: getenv_def env0_def)
  have d: "DRY_RUN_of env0" "\<not> AUTO_APPLY_of env0"
    by (simp_all add: DRY_RUN_of_def AUTO_APPLY_of_def getenv_default_def env0_def lower_def
          lower_char_def)
  obtain cfg where c: "module_config lib0 env0 = Inr cfg" "PROM_URL cfg = None"
    "DRY_RUN cfg" "\<not> AUTO_APPLY cfg" "CPU_THRESHOLD cfg = Fin (1 / 2)"
    using d by (simp add: module_config_def getenv_default_def getenv_def env0_def lib0_parse)
  have q: "query_prometheus cfg w q
             = ([], Inl (PyExn ''RuntimeError'' ''PROMETHEUS_URL not configured''))" for w q
    by (simp add: query_prometheus_def c(2) raise_def)
  have s: "get_average_cpu_for_deployment lib0 cfg w dn ns
             = ([Print ''Prom query error: PROMETHEUS_URL not configured''], Inr (0, JArr []))"
    for w dn ns
    by (simp add: get_average_cpu_for_deployment_def sampler_try_block_def q io_defs io_simps)
  have b: "loop_body lib0 cfg 30 world0
             = ([Print ''Prom query error: PROMETHEUS_URL not configured'',
                 Print ''[2024-01-01T12:00:00] avg_cpu=<float> (threshold=<float>)'',
                 Sleep 30], Inr ())"
    unfolding loop_body_def s
    by (simp add: c(5) io_defs io_simps py_sleep_def lib0_def world0_def zero_pyfloat_def)
  have "agent lib0 env0 [world0, world0]
       = ([Print ''Starting Agentic AIOps agent (DRY_RUN=True, AUTO_APPLY=False)'',
           Print ''Prom query error: PROMETHEUS_URL not configured'',
           Print ''[2024-01-01T12:00:00] avg_cpu=<float> (threshold=<float>)'',
           Sleep 30,
           Print ''Prom query error: PROMETHEUS_URL not configured'',
           Print ''[2024-01-01T12:00:00] avg_cpu=<float> (threshold=<float>)'',
           Sleep 30],
          Inr ())"
    by (simp add: agent_def c(1,3,4) main_loop_def b io_defs io_simps str_of_bool_def)
  with g show ?thesis by simp
qed

theorem prometheus_url_missing_witness:
  "falsy (PROM_URL (cfg0\<lparr>PROM_URL := None\<rparr>))
   \<and> 0 \<le> CPU_THRESHOLD (cfg0\<lparr>PROM_URL := None\<rparr>) \<and> (0::int) \<le> 30
   \<and> get_average_cpu_for_deployment lib0 (cfg0\<lparr>PROM_URL := None\<rparr>) world0 ''myapp'' ''default''
       = ([Print ''Prom query error: PROMETHEUS_URL not configured''], Inr (0, JArr []))
   \<and> snd (main_loop lib0 (cfg0\<lparr>PROM_URL := None\<rparr>) 30 [world0, world0]) = Inr ()
   \<and> sleeps (fst (main_loop lib0 (cfg0\<lparr>PROM_URL := None\<rparr>) 30 [world0, world0])) = [30, 30]
   \<and> module_config lib0 env0 \<noteq> Inl boom
   \<and> (\<exists>cfg. module_config lib0 env0 = Inr cfg \<and> PROM_URL cfg = None)"
proof -
  let ?c = "cfg0\<lparr>PROM_URL := None\<rparr>"
  have h: "falsy (PROM_URL ?c)" "0 \<le> CPU_THRESHOLD ?c" "(0::int) \<le> 30"
    by (simp_all add: falsy_def cfg0_def zero_pyfloat_def)
  obtain cfg where c: "module_config lib0 env0 = Inr cfg"
    by (simp add: module_config_def getenv_default_def env0_def lib0_parse)
  have e: "env0 ''PROMETHEUS_URL'' = None" by (simp add: env0_def)
  note t = prometheus_url_missing [where L = lib0 and env = env0 and cfg = ?c and w = world0
      and q = "''q''" and d = "''myapp''" and n = "''default''" and p = 30
      and ws = "[world0, world0]"]
  have r1: "get_average_cpu_for_deployment lib0 ?c world0 ''myapp'' ''default''
       = ([Print ''Prom query error: PROMETHEUS_URL not configured''], Inr (0, JArr []))"
    using t h by blast
  have "snd (main_loop lib0 ?c 30 [world0, world0]) = Inr ()
        \<and> sleeps (fst (main_loop lib0 ?c 30 [world0, world0]))
            = replicate (length [world0, world0]) 30"
    using t h by blast
  then have r2: "snd (main_loop lib0 ?c 30 [world0, world0]) = Inr ()
        \<and> sleeps (fst (main_loop lib0 ?c 30 [world0, world0])) = [30, 30]"
    by (simp add: numeral_2_eq_2)
  have r3: "PROM_URL cfg = None" using t c e by simp
  have r4: "module_config lib0 env0 \<noteq> Inl boom" using c by simp
  show ?thesis using h r1 r2 r3 r4 c by blast
qed

lemma lower_true_iff: "lower v = ''true'' \<longleftrightarrow> true_ignoring_case v"
proof -
  have t: "\<And>c. lower_char c = CHR ''t'' \<longleftrightarrow> c = CHR ''t'' \<or> c = CHR ''T''"
    by (auto simp: lower_char_def split: if_splits)
  have r: "\<And>c. lower_char c = CHR ''r'' \<longleftrightarrow> c = CHR ''r'' \<or> c = CHR ''R''"
    by (auto simp: lower_char_def split: if_splits)
  have u: "\<And>c. lower_char c = CHR ''u'' \<longleftrightarrow> c = CHR ''u'' \<or> c = CHR ''U''"
    by (auto simp: lower_char_def split: if_splits)
  have e: "\<And>c. lower_char c = CHR ''e'' \<longleftrightarrow> c = CHR ''e'' \<or> c = CHR ''E''"
    by (auto simp: lower_char_def split: if_splits)
  have "lower v = ''true'' \<longleftrightarrow>
     (\<exists>a b c d. v = [a, b, c, d] \<and> lower_char a = CHR ''t'' \<and> lower_char b = CHR ''r''
        \<and> lower_char c = CHR ''u'' \<and> lower_char d = CHR ''e'')"
    unfolding lower_def by (auto simp: map_eq_Cons_conv)
  also have "\<dots> \<longleftrightarrow> (\<exists>a b c d. v = [a, b, c, d] \<and> a \<in> {CHR ''t'', CHR ''T''}
        \<and> b \<in> {CHR ''r'', CHR ''R''} \<and> c \<in> {CHR ''u'', CHR ''U''} \<and> d \<in> {CHR ''e'', CHR ''E''})"
    by (simp only: t r u e insert_iff empty_iff simp_thms)
  also have "\<dots> \<longleftrightarrow> true_ignoring_case v"
    unfolding true_ignoring_case_def by (auto split: list.splits)
  finally show ?thesis .
qed

lemma apply_changes_one_action:
  assumes "\<not> DRY_RUN cfg"
  shows "invocations ''restart_deployment_k8s'' (fst (apply_changes L cfg w))
         + invocations ''create_github_pr_update_helm'' (fst (apply_changes L cfg w)) = 1"
proof (cases "AUTO_APPLY cfg")
  case True
  from apply_changes_auto[OF assms True] obtain t where
    "apply_changes L cfg w = (Enter ''restart_deployment_k8s'' # t, Inr ())" "list_all executor_io t"
    by blast
  then show ?thesis by (simp add: invocations_Enter invocations_executor)
next
  case False
  from apply_changes_pr[OF assms False] obtain t where
    "fst (apply_changes L cfg w) = Enter ''create_github_pr_update_helm'' # t"
    "list_all executor_io t" by blast
  then show ?thesis by (simp add: invocations_Enter invocations_executor)
qed

text \<open>
  C10. Dry-run is on exactly when the value of \<open>DRY_RUN\<close> (\<open>"true"\<close> when unset), put in
  lower case, is \<open>"true"\<close>, that is for the sixteen spellings of \<open>true\<close>; every other
  value, such as \<open>"1"\<close> or \<open>"yes"\<close>, turns dry-run off, and then a breach enters exactly
  one remediation action. Auto-apply is read the same way, with the default \<open>"false"\<close>.
\<close>

theorem flag_parsing:
  "DRY_RUN_of env = (lower (case env ''DRY_RUN'' of None \<Rightarrow> ''true'' | Some v \<Rightarrow> v) = ''true'')
   \<and> AUTO_APPLY_of env
       = (lower (case env ''AUTO_APPLY'' of None \<Rightarrow> ''false'' | Some v \<Rightarrow> v) = ''true'')
   \<and> (env ''DRY_RUN'' = None \<longrightarrow> DRY_RUN_of env)
   \<and> (env ''AUTO_APPLY'' = None \<longrightarrow> \<not> AUTO_APPLY_of env)
   \<and> (\<forall>v. env ''DRY_RUN'' = Some v \<longrightarrow> (DRY_RUN_of env \<longleftrightarrow> true_ignoring_case v))
   \<and> (\<forall>v. env ''AUTO_APPLY'' = Some v \<longrightarrow> (AUTO_APPLY_of env \<longleftrightarrow> true_ignoring_case v))
   \<and> (env ''DRY_RUN'' = Some ''1'' \<longrightarrow> \<not> DRY_RUN_of env)
   \<and> (env ''DRY_RUN'' = Some ''yes'' \<longrightarrow> \<not> DRY_RUN_of env)
   \<and> (\<forall>cfg. module_config L env = Inr cfg \<longrightarrow>
         DRY_RUN cfg = DRY_RUN_of env \<and> AUTO_APPLY cfg = AUTO_APPLY_of env)
   \<and> (\<forall>cfg. module_config L env = Inr cfg \<and> \<not> DRY_RUN_of env
            \<and> CPU_THRESHOLD cfg < sampled_average L cfg w \<longrightarrow>
         invocations ''restart_deployment_k8s'' (fst (loop_body L cfg p w))
         + invocations ''create_github_pr_update_helm'' (fst (loop_body L cfg p w)) = 1)"
proof -
  have c: "DRY_RUN cfg = DRY_RUN_of env \<and> AUTO_APPLY cfg = AUTO_APPLY_of env"
    if "module_config L env = Inr cfg" for cfg
    using that by (auto simp: module_config_def split: option.splits)
  have m: "invocations ''restart_deployment_k8s'' (fst (loop_body L cfg p w))
         + invocations ''create_github_pr_update_helm'' (fst (loop_body L cfg p w)) = 1"
    if "module_config L env = Inr cfg \<and> \<not> DRY_RUN_of env
            \<and> CPU_THRESHOLD cfg < sampled_average L cfg w" for cfg
  proof -
    from that c have d: "\<not> DRY_RUN cfg" and b: "CPU_THRESHOLD cfg < sampled_average L cfg w"
      by auto
    show ?thesis
      using apply_changes_one_action[OF d, of L w] by (simp add: iteration_invocations[OF b])
  qed
  have d1: "DRY_RUN_of env = (lower (case env ''DRY_RUN'' of None \<Rightarrow> ''true'' | Some v \<Rightarrow> v) = ''true'')"
    by (simp add: DRY_RUN_of_def getenv_default_def)
  have a1: "AUTO_APPLY_of env
       = (lower (case env ''AUTO_APPLY'' of None \<Rightarrow> ''false'' | Some v \<Rightarrow> v) = ''true'')"
    by (simp add: AUTO_APPLY_of_def getenv_default_def)
  have d2: "env ''DRY_RUN'' = None \<longrightarrow> DRY_RUN_of env"
    by (simp add: d1 lower_def lower_char_def)
  have a2: "env ''AUTO_APPLY'' = None \<longrightarrow> \<not> AUTO_APPLY_of env"
    by (simp add: a1 lower_def lower_char_def)
  have d3: "\<forall>v. env ''DRY_RUN'' = Some v \<longrightarrow> (DRY_RUN_of env \<longleftrightarrow> true_ignoring_case v)"
    by (simp add: d1 lower_true_iff)
  have a3: "\<forall>v. env ''AUTO_APPLY'' = Some v \<longrightarrow> (AUTO_APPLY_of env \<longleftrightarrow> true_ignoring_case v)"
    by (simp add: a1 lower_true_iff)
  have d4: "env ''DRY_RUN'' = Some ''1'' \<longrightarrow> \<not> DRY_RUN_of env"
    by (simp add: d1 lower_def)
  have d5: "env ''DRY_RUN'' = Some ''yes'' \<longrightarrow> \<not> DRY_RUN_of env"
    by (simp add: d1 lower_def)
  show ?thesis using d1 a1 d2 a2 d3 a3 d4 d5 c m by blast
qed

theorem flag_parsing_witness:
  "env0 ''DRY_RUN'' = None \<and> DRY_RUN_of env0
   \<and> env0 ''AUTO_APPLY'' = None \<and> \<not> AUTO_APPLY_of env0
   \<and> env1 ''DRY_RUN'' = Some ''yes'' \<and> \<not> DRY_RUN_of env1
   \<and> (\<exists>cfg. module_config lib0 env1 = Inr cfg \<and> \<not> DRY_RUN cfg
         \<and> CPU_THRESHOLD cfg < sampled_average lib0 cfg world0
         \<and> invocations ''restart_deployment_k8s'' (fst (loop_body lib0 cfg 30 world0))
           + invocations ''create_github_pr_update_helm'' (fst (loop_body lib0 cfg 30 world0)) = 1)"
proof -
  have e0: "env0 ''DRY_RUN'' = None" "env0 ''AUTO_APPLY'' = None"
    by (simp_all add: env0_def)
  have e1: "env1 ''DRY_RUN'' = Some ''yes''" by (simp add: env1_def)
  obtain cfg where c: "module_config lib0 env1 = Inr cfg"
    "PROM_URL cfg = Some ''http://prometheus:9090/''" "CPU_THRESHOLD cfg = Fin (1 / 2)"
    by (simp add: module_config_def getenv_default_def getenv_def env1_def lib0_parse)
  have a: "sampled_average lib0 cfg world0 = Fin (5 / 8)"
    by (rule sampled_average_world0) (simp_all add: c(2))
  have b: "CPU_THRESHOLD cfg < sampled_average lib0 cfg world0"
    unfolding a c(3) by simp
  note t0 = flag_parsing [where env = env0 and L = lib0 and w = world0 and p = 30]
  note t1 = flag_parsing [where env = env1 and L = lib0 and w = world0 and p = 30]
  have r0: "DRY_RUN_of env0" "\<not> AUTO_APPLY_of env0" using t0 e0 by blast+
  have r1: "\<not> DRY_RUN_of env1" using t1 e1 by blast
  have r2: "\<not> DRY_RUN cfg" using t1 c(1) r1 by blast
  have r3: "invocations ''restart_deployment_k8s'' (fst (loop_body lib0 cfg 30 world0))
           + invocations ''create_github_pr_update_helm'' (fst (loop_body lib0 cfg 30 world0)) = 1"
    using t1 c(1) r1 b by blast
  show ?thesis using e0 e1 r0 r1 r2 r3 c(1) b by blast
qed

end
